theory Spec2Isabelle
  imports Main
begin

section \<open>The driver dashboard: ride requests between a local cache and a remote store\<close>

text \<open>
  The page \<^verbatim>\<open>src/pages/Driver.tsx\<close> loads ride requests from a remote table, falls back
  to a list cached in \<^verbatim>\<open>localStorage\<close>, and lets the driver accept, decline or complete a
  request. The embedding follows the functions of the page: \<^verbatim>\<open>validateStatus\<close>,
  \<^verbatim>\<open>processRideRequests\<close>, \<^verbatim>\<open>loadRideRequests\<close> and \<^verbatim>\<open>handleRideAction\<close>.
\<close>

subsection \<open>JavaScript values\<close>

text \<open>
  The cached list is typed \<^verbatim>\<open>any[]\<close>, so its entries are untyped values. A finite number
  other than \<^verbatim>\<open>-0\<close> is kept as an integer: the page only tests numbers for truthiness
  and writes them to JSON, and there all of these behave alike. \<^verbatim>\<open>-0\<close>, the infinities
  and \<^verbatim>\<open>NaN\<close> are kept apart, since JSON does not keep them.
\<close>

datatype number = Finite int | NegZero | Infinity | NegInfinity | NaN

datatype jsval =
    Undefined
  | Null
  | JBool bool
  | JNum number
  | JStr string
  | JArr "jsval list"
  | JObj "(string \<times> jsval) list"

datatype js_error = TypeError | SyntaxError | RemoteFailure

text \<open>Truthiness, as \<^verbatim>\<open>||\<close> and \<^verbatim>\<open>!\<close> test it.\<close>

fun truthy :: "jsval \<Rightarrow> bool" where
  "truthy Undefined = False"
| "truthy Null = False"
| "truthy (JBool b) = b"
| "truthy (JNum n) = (case n of Finite i \<Rightarrow> i \<noteq> 0 | NegZero \<Rightarrow> False | NaN \<Rightarrow> False | _ \<Rightarrow> True)"
| "truthy (JStr s) = (s \<noteq> [])"
| "truthy (JArr xs) = True"
| "truthy (JObj kvs) = True"

text \<open>\<^verbatim>\<open>a || b\<close>\<close>

definition js_or :: "jsval \<Rightarrow> jsval \<Rightarrow> jsval" where
  "js_or a b = (if truthy a then a else b)"

text \<open>
  \<^verbatim>\<open>v.k\<close> for a value that is neither \<^verbatim>\<open>null\<close> nor \<^verbatim>\<open>undefined\<close>: the own property of an
  object, \<^verbatim>\<open>undefined\<close> when there is none. (None of the names the page reads is a
  property of a primitive's or an array's prototype.)
\<close>

fun js_get :: "jsval \<Rightarrow> string \<Rightarrow> jsval" where
  "js_get (JObj kvs) k = (case map_of kvs k of None \<Rightarrow> Undefined | Some v \<Rightarrow> v)"
| "js_get v k = Undefined"

text \<open>\<^verbatim>\<open>v?.k\<close>: \<^verbatim>\<open>undefined\<close> on \<^verbatim>\<open>null\<close> and \<^verbatim>\<open>undefined\<close> as well.\<close>

definition js_get_opt :: "jsval \<Rightarrow> string \<Rightarrow> jsval" where
  "js_get_opt v k = (if v = Null \<or> v = Undefined then Undefined else js_get v k)"

text \<open>\<^verbatim>\<open>xs.map(f)\<close> with a callback that may throw: the first exception ends the map.\<close>

fun map_throwing :: "('a \<Rightarrow> js_error + 'b) \<Rightarrow> 'a list \<Rightarrow> js_error + 'b list" where
  "map_throwing f [] = Inr []"
| "map_throwing f (x # xs) =
     (case f x of
        Inl e \<Rightarrow> Inl e
      | Inr y \<Rightarrow> (case map_throwing f xs of Inl e \<Rightarrow> Inl e | Inr ys \<Rightarrow> Inr (y # ys)))"

subsection \<open>The platform: clock and date formatting\<close>

text \<open>
  \<^verbatim>\<open>Date.now()\<close>, and the three formatters of \<^verbatim>\<open>new Date(v)\<close> the page calls, as
  parameters. \<^verbatim>\<open>new Date()\<close> is \<^verbatim>\<open>new Date(Date.now())\<close>; the clock is read once per
  operation.
\<close>

record platform =
  now :: jsval
  toLocaleDateString :: "jsval \<Rightarrow> string"
  toLocaleTimeString :: "jsval \<Rightarrow> string"
  toISOString :: "jsval \<Rightarrow> string"

subsection \<open>The two shapes of a ride request\<close>

text \<open>
  \<^verbatim>\<open>interface LocalRideRequest\<close>. Every entry the page builds is an object literal with
  these ten own properties, in this order; a property may hold \<^verbatim>\<open>undefined\<close>.
  TypeScript's field types are not checked at run time, so the fields copied from the
  cache are untyped; \<^verbatim>\<open>status\<close> is always one of the page's own string literals.
\<close>

record LocalRideRequest =
  id' :: jsval
  studentName :: jsval
  studentEmail :: jsval
  pickupLocation :: jsval
  destination :: jsval
  date :: jsval
  time :: jsval
  status :: string
  disabilityType :: jsval
  additionalNotes :: jsval

text \<open>
  Modelled from the spec: the row type of the remote table \<^verbatim>\<open>ride_requests\<close>, declared in
  \<^verbatim>\<open>@/lib/supabase\<close>, which is not among the sources. The columns are those of the spec
  (id, student_id, driver_id, pickup_location, destination, status, created_at,
  updated_at); \<^verbatim>\<open>student_id\<close> and \<^verbatim>\<open>status\<close> are strings, as the page writes them.
\<close>

record db_row =
  id_col :: jsval
  student_id :: string
  driver_id :: jsval
  pickup_location :: jsval
  destination_col :: jsval
  status_col :: string
  created_at :: jsval
  updated_at :: jsval

subsection \<open>validateStatus and processRideRequests\<close>

definition validateStatus :: "jsval \<Rightarrow> string" where
  "validateStatus st =
     (if st = JStr ''accepted'' then ''accepted''
      else if st = JStr ''completed'' then ''completed''
      else if st = JStr ''declined'' then ''declined''
      else ''pending'')"

text \<open>
  The callback of \<^verbatim>\<open>processRideRequests\<close>. Reading a property of \<^verbatim>\<open>null\<close> or
  \<^verbatim>\<open>undefined\<close> throws a TypeError.
\<close>

definition processRideRequest :: "platform \<Rightarrow> jsval \<Rightarrow> js_error + LocalRideRequest" where
  "processRideRequest p request =
     (if request = Null \<or> request = Undefined then Inl TypeError
      else Inr \<lparr>
        id' = js_get request ''id'',
        studentName = js_or (js_get request ''studentName'') (JStr ''Unknown''),
        studentEmail = js_or (js_get request ''studentEmail'') (JStr ''unknown@email.com''),
        pickupLocation = js_or (js_get request ''pickupLocation'') (JStr ''''),
        destination = js_or (js_get request ''destination'') (JStr ''''),
        date = js_or (js_get request ''date'') (JStr (toLocaleDateString p (now p))),
        time = js_or (js_get request ''time'') (JStr (toLocaleTimeString p (now p))),
        status = validateStatus (js_or (js_get request ''status'') (JStr ''pending'')),
        disabilityType = js_or (js_get request ''disabilityType'') (JStr ''Not specified''),
        additionalNotes = js_get request ''additionalNotes'' \<rparr>)"

text \<open>\<^verbatim>\<open>storedRequests.map(...)\<close>: only an array has \<^verbatim>\<open>map\<close>.\<close>

definition processRideRequests :: "platform \<Rightarrow> jsval \<Rightarrow> js_error + LocalRideRequest list" where
  "processRideRequests p storedRequests =
     (case storedRequests of
        JArr requests \<Rightarrow> map_throwing (processRideRequest p) requests
      | _ \<Rightarrow> Inl TypeError)"

text \<open>The conversion of a row of the remote table (lines 78 to 89).\<close>

definition fromDb :: "platform \<Rightarrow> db_row \<Rightarrow> LocalRideRequest" where
  "fromDb p dbReq = \<lparr>
     id' = id_col dbReq,
     studentName = JStr (student_id dbReq),
     studentEmail = JStr (student_id dbReq @ ''@example.com''),
     pickupLocation = pickup_location dbReq,
     destination = destination_col dbReq,
     date = JStr (toLocaleDateString p (js_or (created_at dbReq) (now p))),
     time = JStr (toLocaleTimeString p (js_or (created_at dbReq) (now p))),
     status = validateStatus (JStr (status_col dbReq)),
     disabilityType = JStr ''Not specified'',
     additionalNotes = JStr ''From database'' \<rparr>"

subsection \<open>JSON\<close>

text \<open>
  A JSON document, as \<^verbatim>\<open>JSON.parse\<close> reads it: it has no \<^verbatim>\<open>undefined\<close>. An object is
  the list of its members, each name once. A number literal is represented by the number
  that \<^verbatim>\<open>JSON.parse\<close> reads from it: a literal too large for a double, such as
  \<^verbatim>\<open>1e400\<close>, reads as an infinity, and no literal reads as \<^verbatim>\<open>NaN\<close>.
\<close>

datatype json =
    Json_null
  | Json_bool bool
  | Json_num number
  | Json_str string
  | Json_arr "json list"
  | Json_obj "(string \<times> json) list"

text \<open>The value \<^verbatim>\<open>JSON.parse\<close> builds from a document.\<close>

fun of_json :: "json \<Rightarrow> jsval" where
  "of_json Json_null = Null"
| "of_json (Json_bool b) = JBool b"
| "of_json (Json_num n) = JNum n"
| "of_json (Json_str s) = JStr s"
| "of_json (Json_arr js) = JArr (map of_json js)"
| "of_json (Json_obj kjs) = JObj (map (\<lambda>kj. (fst kj, of_json (snd kj))) kjs)"

text \<open>
  The document \<^verbatim>\<open>JSON.stringify\<close> writes for a value inside an array or an object: a
  property whose value is \<^verbatim>\<open>undefined\<close> is left out, an \<^verbatim>\<open>undefined\<close> array element is
  written as \<^verbatim>\<open>null\<close>, and so is a number that is not finite; \<^verbatim>\<open>-0\<close> is written \<^verbatim>\<open>0\<close>.
\<close>

fun to_json :: "jsval \<Rightarrow> json" where
  "to_json Undefined = Json_null"
| "to_json Null = Json_null"
| "to_json (JBool b) = Json_bool b"
| "to_json (JNum n) =
     (case n of
        Finite i \<Rightarrow> Json_num (Finite i)
      | NegZero \<Rightarrow> Json_num (Finite 0)
      | _ \<Rightarrow> Json_null)"
| "to_json (JStr s) = Json_str s"
| "to_json (JArr xs) = Json_arr (map to_json xs)"
| "to_json (JObj kvs) =
     Json_obj (map (\<lambda>kv. (fst kv, to_json (snd kv))) (filter (\<lambda>kv. snd kv \<noteq> Undefined) kvs))"

text \<open>
  A string held by \<^verbatim>\<open>localStorage\<close>, represented by what \<^verbatim>\<open>JSON.parse\<close> makes of it: the
  empty string, a string that is not JSON, or the text of a JSON document.
\<close>

datatype json_text = EmptyText | BadText | JsonText json

definition JSON_stringify :: "jsval \<Rightarrow> json_text" where
  "JSON_stringify v = JsonText (to_json v)"

definition JSON_parse :: "json_text \<Rightarrow> js_error + jsval" where
  "JSON_parse t = (case t of JsonText j \<Rightarrow> Inr (of_json j) | _ \<Rightarrow> Inl SyntaxError)"

text \<open>
  \<^verbatim>\<open>localStorage.getItem("rideRequests") || "[]"\<close>: \<^verbatim>\<open>getItem\<close> gives \<^verbatim>\<open>null\<close> (here
  \<open>None\<close>) when nothing is stored; \<^verbatim>\<open>null\<close> and the empty string are falsy.
\<close>

definition item_or_empty_list :: "json_text option \<Rightarrow> json_text" where
  "item_or_empty_list item =
     (case item of
        None \<Rightarrow> JsonText (Json_arr [])
      | Some EmptyText \<Rightarrow> JsonText (Json_arr [])
      | Some t \<Rightarrow> t)"

text \<open>An entry as the object it is in memory: its ten own properties, in order.\<close>

definition properties :: "LocalRideRequest \<Rightarrow> (string \<times> jsval) list" where
  "properties r =
     [(''id'', id' r),
      (''studentName'', studentName r),
      (''studentEmail'', studentEmail r),
      (''pickupLocation'', pickupLocation r),
      (''destination'', destination r),
      (''date'', date r),
      (''time'', time r),
      (''status'', JStr (status r)),
      (''disabilityType'', disabilityType r),
      (''additionalNotes'', additionalNotes r)]"

definition obj_of :: "LocalRideRequest \<Rightarrow> jsval" where
  "obj_of r = JObj (properties r)"

subsection \<open>The remote store and the state of the page\<close>

text \<open>
  Modelled from the spec: the client of the hosted store (\<^verbatim>\<open>@/lib/supabase\<close>, not among
  the sources), with the four operations the spec lists: select-all, the existence check
  by id, insert, and update-by-id. An awaited call either throws or resolves to a
  response with its \<^verbatim>\<open>data\<close> and its \<^verbatim>\<open>error\<close>. What happens to each call is the
  environment's choice, given as a list of faults, one per call in order (a call
  succeeds when the list is used up): the store executes the call, or the response
  reports an error, or the call throws.
\<close>

datatype fault = Succeeds | Fails | Rejects

datatype 'a reply = Throws | Reply "'a option" "string option"

record update_patch =
  status_new :: string
  driver_id_new :: jsval
  updated_at_new :: jsval

datatype request =
    SelectAll
  | SelectId jsval
  | Insert db_row
  | Update update_patch string

datatype console_entry = ConsoleLog string "db_row list" | ConsoleError string js_error

text \<open>
  The state the page works on: the remote table, the faults to come and the calls made
  so far (each with what happened to it), the item \<^verbatim>\<open>rideRequests\<close> of
  \<^verbatim>\<open>localStorage\<close>, the React state \<^verbatim>\<open>rideRequests\<close>, the console and the toasts shown.
\<close>

record world =
  table :: "db_row list"
  script :: "fault list"
  calls :: "(request \<times> fault) list"
  storage :: "json_text option"
  rideRequests :: "LocalRideRequest list"
  console :: "console_entry list"
  toasts :: "(string \<times> string) list"

definition call :: "request \<Rightarrow> world \<Rightarrow> fault \<times> world" where
  "call rq w =
     (case script w of
        [] \<Rightarrow> (Succeeds, w\<lparr>calls := calls w @ [(rq, Succeeds)]\<rparr>)
      | f # fs \<Rightarrow> (f, w\<lparr>script := fs, calls := calls w @ [(rq, f)]\<rparr>))"

text \<open>\<^verbatim>\<open>supabase.from('ride_requests').select('*')\<close>\<close>

definition remote_select_all :: "world \<Rightarrow> db_row list reply \<times> world" where
  "remote_select_all w =
     (case call SelectAll w of
        (Succeeds, w1) \<Rightarrow> (Reply (Some (table w1)) None, w1)
      | (Fails, w1) \<Rightarrow> (Reply None (Some ''error''), w1)
      | (Rejects, w1) \<Rightarrow> (Throws, w1))"

text \<open>
  \<^verbatim>\<open>.select('id').eq('id', v).maybeSingle()\<close>: the row's id when one row matches, no data
  when none does, and an error when several do.
\<close>

definition remote_select_id :: "jsval \<Rightarrow> world \<Rightarrow> jsval reply \<times> world" where
  "remote_select_id v w =
     (case call (SelectId v) w of
        (Succeeds, w1) \<Rightarrow>
          (case filter (\<lambda>r. id_col r = v) (table w1) of
             [] \<Rightarrow> (Reply None None, w1)
           | [r] \<Rightarrow> (Reply (Some (JObj [(''id'', id_col r)])) None, w1)
           | _ \<Rightarrow> (Reply None (Some ''multiple rows''), w1))
      | (Fails, w1) \<Rightarrow> (Reply None (Some ''error''), w1)
      | (Rejects, w1) \<Rightarrow> (Throws, w1))"

text \<open>\<^verbatim>\<open>.insert([row])\<close>\<close>

definition remote_insert :: "db_row \<Rightarrow> world \<Rightarrow> unit reply \<times> world" where
  "remote_insert row w =
     (case call (Insert row) w of
        (Succeeds, w1) \<Rightarrow> (Reply None None, w1\<lparr>table := table w1 @ [row]\<rparr>)
      | (Fails, w1) \<Rightarrow> (Reply None (Some ''error''), w1)
      | (Rejects, w1) \<Rightarrow> (Throws, w1))"

text \<open>\<^verbatim>\<open>.update(patch).eq('id', requestId)\<close>\<close>

definition apply_patch :: "update_patch \<Rightarrow> db_row \<Rightarrow> db_row" where
  "apply_patch u r =
     r\<lparr>status_col := status_new u, driver_id := driver_id_new u, updated_at := updated_at_new u\<rparr>"

definition remote_update :: "update_patch \<Rightarrow> string \<Rightarrow> world \<Rightarrow> unit reply \<times> world" where
  "remote_update u requestId w =
     (case call (Update u requestId) w of
        (Succeeds, w1) \<Rightarrow>
          (Reply None None,
           w1\<lparr>table := map (\<lambda>r. if id_col r = JStr requestId then apply_patch u r else r) (table w1)\<rparr>)
      | (Fails, w1) \<Rightarrow> (Reply None (Some ''error''), w1)
      | (Rejects, w1) \<Rightarrow> (Throws, w1))"

definition console_error :: "string \<Rightarrow> js_error \<Rightarrow> world \<Rightarrow> world" where
  "console_error msg e w = w\<lparr>console := console w @ [ConsoleError msg e]\<rparr>"

subsection \<open>loadRideRequests\<close>

text \<open>
  \<^verbatim>\<open>request.studentEmail.split('@')[0]\<close>: the part of a string before its first
  \<^verbatim>\<open>@\<close>; a value that is not a string has no \<^verbatim>\<open>split\<close>, and the call throws.
\<close>

definition email_prefix :: "jsval \<Rightarrow> js_error + string" where
  "email_prefix v =
     (case v of
        JStr s \<Rightarrow> Inr (takeWhile (\<lambda>c. c \<noteq> CHR ''@'') s)
      | _ \<Rightarrow> Inl TypeError)"

text \<open>The row built for the remote table from a local entry (lines 116 to 125).\<close>

definition dbRequest :: "platform \<Rightarrow> LocalRideRequest \<Rightarrow> js_error + db_row" where
  "dbRequest p request =
     (case email_prefix (studentEmail request) of
        Inl e \<Rightarrow> Inl e
      | Inr prefix \<Rightarrow> Inr \<lparr>
          id_col = id' request,
          student_id = prefix,
          driver_id = Null,
          pickup_location = pickupLocation request,
          destination_col = destination request,
          status_col = (if status request = ''declined'' then ''rejected'' else status request),
          created_at = JStr (toISOString p (now p)),
          updated_at = JStr (toISOString p (now p)) \<rparr>)"

text \<open>
  The loop of lines 106 to 129, inside its \<^verbatim>\<open>try\<close>: the result is the exception that
  left the loop, if one did.
\<close>

fun sync :: "platform \<Rightarrow> LocalRideRequest list \<Rightarrow> world \<Rightarrow> js_error option \<times> world" where
  "sync p [] w = (None, w)"
| "sync p (request # rest) w =
     (case remote_select_id (id' request) w of
        (Throws, w1) \<Rightarrow> (Some RemoteFailure, w1)
      | (Reply (Some existingData) err, w1) \<Rightarrow> sync p rest w1
      | (Reply None err, w1) \<Rightarrow>
          (case dbRequest p request of
             Inl e \<Rightarrow> (Some e, w1)
           | Inr row \<Rightarrow>
               (case remote_insert row w1 of
                  (Throws, w2) \<Rightarrow> (Some RemoteFailure, w2)
                | (Reply d err', w2) \<Rightarrow> sync p rest w2)))"

datatype outcome = Returned | Raised js_error

text \<open>Lines 98 to 133: the fall-back to \<^verbatim>\<open>localStorage\<close> and the sync to the remote table.\<close>

definition fallback :: "platform \<Rightarrow> world \<Rightarrow> outcome \<times> world" where
  "fallback p w =
     (case JSON_parse (item_or_empty_list (storage w)) of
        Inl e \<Rightarrow> (Raised e, w)
      | Inr storedRequests \<Rightarrow>
          (case processRideRequests p storedRequests of
             Inl e \<Rightarrow> (Raised e, w)
           | Inr typedRequests \<Rightarrow>
               (let w1 = w\<lparr>rideRequests := typedRequests\<rparr> in
                if length typedRequests > 0 then
                  (case sync p typedRequests w1 of
                     (Some e, w2) \<Rightarrow>
                       (Returned, console_error ''Error syncing ride requests to database:'' e w2)
                   | (None, w2) \<Rightarrow> (Returned, w2))
                else (Returned, w1))))"

definition loadRideRequests :: "platform \<Rightarrow> world \<Rightarrow> outcome \<times> world" where
  "loadRideRequests p w =
     (case remote_select_all w of
        (Throws, w1) \<Rightarrow>
          fallback p (console_error ''Error loading ride requests from database:'' RemoteFailure w1)
      | (Reply (Some dbRequests) None, w1) \<Rightarrow>
          (if length dbRequests > 0 then
             (Returned,
              w1\<lparr>console := console w1 @ [ConsoleLog ''Loaded ride requests from Supabase:'' dbRequests],
                 rideRequests := map (fromDb p) dbRequests\<rparr>)
           else fallback p w1)
      | (Reply dbRequests err, w1) \<Rightarrow> fallback p w1)"

subsection \<open>handleRideAction\<close>

datatype action = Accept | Decline | Complete

definition action_text :: "action \<Rightarrow> string" where
  "action_text a = (case a of Accept \<Rightarrow> ''accept'' | Decline \<Rightarrow> ''decline'' | Complete \<Rightarrow> ''complete'')"

definition newStatus :: "action \<Rightarrow> string" where
  "newStatus a = (if a = Accept then ''accepted'' else if a = Decline then ''declined'' else ''completed'')"

definition statusForDb :: "action \<Rightarrow> string" where
  "statusForDb a = (if a = Decline then ''rejected'' else if a = Accept then ''accepted'' else ''completed'')"

definition updatedRequests :: "LocalRideRequest list \<Rightarrow> string \<Rightarrow> action \<Rightarrow> LocalRideRequest list" where
  "updatedRequests requests requestId a =
     map (\<lambda>request. if id' request = JStr requestId then request\<lparr>status := newStatus a\<rparr> else request)
       requests"

text \<open>The object given to \<^verbatim>\<open>.update\<close> (lines 165 to 169); \<open>user\<close> is the session's user.\<close>

definition update_of :: "platform \<Rightarrow> jsval \<Rightarrow> action \<Rightarrow> update_patch" where
  "update_of p user a = \<lparr>
     status_new = statusForDb a,
     driver_id_new = js_or (js_get_opt user ''id'') Null,
     updated_at_new = JStr (toISOString p (now p)) \<rparr>"

text \<open>Lines 142 to 157: the list is rebuilt, written to \<^verbatim>\<open>localStorage\<close> and set as state.\<close>

definition local_update :: "string \<Rightarrow> action \<Rightarrow> world \<Rightarrow> world" where
  "local_update requestId a w =
     w\<lparr>storage := Some (JSON_stringify (JArr (map obj_of (updatedRequests (rideRequests w) requestId a)))),
       rideRequests := updatedRequests (rideRequests w) requestId a\<rparr>"

definition handleRideAction :: "platform \<Rightarrow> jsval \<Rightarrow> string \<Rightarrow> action \<Rightarrow> world \<Rightarrow> world" where
  "handleRideAction p user requestId a w =
     (let w1 = local_update requestId a w;
          w2 = (case remote_update (update_of p user a) requestId w1 of
                  (Throws, w') \<Rightarrow>
                    console_error ''Error updating ride request in database:'' RemoteFailure w'
                | (Reply d err, w') \<Rightarrow> w')
      in w2\<lparr>toasts := toasts w2 @
           [(''Ride Request Updated'', ''Ride request has been '' @ action_text a @ ''ed.'')]\<rparr>)"

subsection \<open>Notions the properties are stated with\<close>

text \<open>The closed enumeration of the local status.\<close>

definition valid_status :: "string \<Rightarrow> bool" where
  "valid_status s = (s \<in> {''pending'', ''accepted'', ''completed'', ''declined''})"

text \<open>
  A value that JSON represents: \<^verbatim>\<open>null\<close>, a boolean, a string, a finite number other than
  \<^verbatim>\<open>-0\<close>, or an array or an object of such values. An entry is storable when each of
  its properties holds \<^verbatim>\<open>undefined\<close> or such a value.
\<close>

fun json_value :: "jsval \<Rightarrow> bool" where
  "json_value Undefined = False"
| "json_value Null = True"
| "json_value (JBool b) = True"
| "json_value (JNum n) = (case n of Finite i \<Rightarrow> True | _ \<Rightarrow> False)"
| "json_value (JStr s) = True"
| "json_value (JArr xs) = list_all json_value xs"
| "json_value (JObj kvs) = list_all (\<lambda>kv. json_value (snd kv)) kvs"

definition undefined_or_json :: "jsval \<Rightarrow> bool" where
  "undefined_or_json v = (v = Undefined \<or> json_value v)"

definition storable :: "LocalRideRequest \<Rightarrow> bool" where
  "storable r = list_all (\<lambda>kv. undefined_or_json (snd kv)) (properties r)"

text \<open>An object without the properties that hold \<^verbatim>\<open>undefined\<close>.\<close>

definition defined_properties :: "LocalRideRequest \<Rightarrow> jsval" where
  "defined_properties r = JObj (filter (\<lambda>kv. snd kv \<noteq> Undefined) (properties r))"

text \<open>
  The sync as the specification describes it, for entries whose \<open>studentEmail\<close> is a
  string and on a store that executes every call. The row derived from an entry with
  e-mail \<open>email\<close>: the student id is the part of the e-mail before its first \<^verbatim>\<open>@\<close>,
  \<^verbatim>\<open>declined\<close> is written \<^verbatim>\<open>rejected\<close>, and the driver is \<^verbatim>\<open>null\<close>.
\<close>

definition backfill_row :: "platform \<Rightarrow> LocalRideRequest \<Rightarrow> string \<Rightarrow> db_row" where
  "backfill_row p e email = \<lparr>
     id_col = id' e,
     student_id = takeWhile (\<lambda>c. c \<noteq> CHR ''@'') email,
     driver_id = Null,
     pickup_location = pickupLocation e,
     destination_col = destination e,
     status_col = (if status e = ''declined'' then ''rejected'' else status e),
     created_at = JStr (toISOString p (now p)),
     updated_at = JStr (toISOString p (now p)) \<rparr>"

text \<open>
  For each entry (given with its e-mail) in order: the existence check, followed by the
  insert of the entry's row exactly when no row of the table has the entry's id.
  \<open>backfill_requests\<close> lists the requests, \<open>backfilled\<close> is the table afterwards.
\<close>

fun backfill_requests ::
  "platform \<Rightarrow> db_row list \<Rightarrow> (LocalRideRequest \<times> string) list \<Rightarrow> request list" where
  "backfill_requests p t [] = []"
| "backfill_requests p t ((e, email) # rest) =
     SelectId (id' e) #
     (if id' e \<in> id_col ` set t then backfill_requests p t rest
      else Insert (backfill_row p e email) # backfill_requests p (t @ [backfill_row p e email]) rest)"

fun backfilled ::
  "platform \<Rightarrow> db_row list \<Rightarrow> (LocalRideRequest \<times> string) list \<Rightarrow> db_row list" where
  "backfilled p t [] = t"
| "backfilled p t ((e, email) # rest) =
     (if id' e \<in> id_col ` set t then backfilled p t rest
      else backfilled p (t @ [backfill_row p e email]) rest)"

text \<open>
  The calls that threw, and the console entries that report a failure of the remote
  store.
\<close>

definition thrown :: "(request \<times> fault) list \<Rightarrow> nat" where
  "thrown cs = length (filter (\<lambda>c. snd c = Rejects) cs)"

definition logged_failures :: "console_entry list \<Rightarrow> nat" where
  "logged_failures es =
     length (filter (\<lambda>e. case e of ConsoleError msg err \<Rightarrow> err = RemoteFailure | _ \<Rightarrow> False) es)"

text \<open>
  Modelled from the spec: the status enumeration of the remote table, which is the local
  one with \<^verbatim>\<open>declined\<close> renamed \<^verbatim>\<open>rejected\<close> (its declaration is in \<^verbatim>\<open>@/lib/supabase\<close>, not
  among the sources).
\<close>

definition remote_statuses :: "string list" where
  "remote_statuses = [''pending'', ''accepted'', ''completed'', ''rejected'']"

text \<open>A platform, a row, an entry and a state to evaluate the operations on.\<close>

definition demo_platform :: platform where
  "demo_platform = \<lparr>
     now = JNum (Finite 0),
     toLocaleDateString = (\<lambda>v. ''1/1/1970''),
     toLocaleTimeString = (\<lambda>v. ''12:00:00 AM''),
     toISOString = (\<lambda>v. ''1970-01-01T00:00:00.000Z'') \<rparr>"

definition demo_row :: db_row where
  "demo_row = \<lparr>
     id_col = JStr ''1'', student_id = ''amina'', driver_id = Null,
     pickup_location = JStr ''Library'', destination_col = JStr ''Clinic'',
     status_col = ''rejected'', created_at = Null, updated_at = Null \<rparr>"

definition demo_entry :: "string \<Rightarrow> LocalRideRequest" where
  "demo_entry i = \<lparr>
     id' = JStr i, studentName = JStr ''Amina'', studentEmail = JStr ''amina@school.edu'',
     pickupLocation = JStr ''Library'', destination = JStr ''Clinic'',
     date = JStr ''1/1/1970'', time = JStr ''12:00:00 AM'', status = ''pending'',
     disabilityType = JStr ''Not specified'', additionalNotes = Undefined \<rparr>"

definition demo_world :: world where
  "demo_world = \<lparr>
     table = [], script = [], calls = [], storage = None, rideRequests = [],
     console = [], toasts = [] \<rparr>"

text \<open>A cached list: one entry with an id and a status the page does not know.\<close>

definition demo_cached :: "json list" where
  "demo_cached = [Json_obj [(''id'', Json_str ''7''), (''status'', Json_str ''rejected'')]]"

text \<open>A cached list of two entries; the second is declined.\<close>

definition demo_cached_pair :: "json list" where
  "demo_cached_pair =
     [Json_obj [(''id'', Json_str ''7'')],
      Json_obj [(''id'', Json_str ''8''), (''status'', Json_str ''declined''),
                (''studentEmail'', Json_str ''omar@school.edu'')]]"

text \<open>
  A platform whose formatters show the date they are given, a row that is accepted and
  has its creation time, and a cached entry with every field.
\<close>

definition demo_reading_platform :: platform where
  "demo_reading_platform = \<lparr>
     now = JNum (Finite 0),
     toLocaleDateString = (\<lambda>v. case v of JStr s \<Rightarrow> take 10 s | _ \<Rightarrow> ''1/1/1970''),
     toLocaleTimeString = (\<lambda>v. case v of JStr s \<Rightarrow> drop 11 s | _ \<Rightarrow> ''12:00:00 AM''),
     toISOString = (\<lambda>v. ''1970-01-01T00:00:00.000Z'') \<rparr>"

definition demo_row_accepted :: db_row where
  "demo_row_accepted = \<lparr>
     id_col = JStr ''2'', student_id = ''omar'', driver_id = JStr ''driver-9'',
     pickup_location = JStr ''Dormitory'', destination_col = JStr ''Lecture hall'',
     status_col = ''accepted'', created_at = JStr ''2024-05-01 08:30:00'',
     updated_at = JStr ''2024-05-01 09:00:00'' \<rparr>"


section \<open>Properties\<close>

subsection \<open>What a remote call leaves alone\<close>

lemma call_frame:
  "call rq w = (f, w1) \<Longrightarrow>
     table w1 = table w \<and> storage w1 = storage w \<and> rideRequests w1 = rideRequests w \<and>
     console w1 = console w \<and> toasts w1 = toasts w \<and> calls w1 = calls w @ [(rq, f)]"
  by (auto simp: call_def split: list.splits)

lemma remote_select_all_frame:
  "remote_select_all w = (r, w1) \<Longrightarrow>
     table w1 = table w \<and> storage w1 = storage w \<and> rideRequests w1 = rideRequests w \<and>
     console w1 = console w \<and> toasts w1 = toasts w \<and> calls w1 = calls w @ [(SelectAll, fst (call SelectAll w))]"
  by (auto simp: remote_select_all_def split: prod.splits fault.splits dest!: call_frame)

lemma remote_select_id_frame:
  "remote_select_id v w = (r, w1) \<Longrightarrow>
     table w1 = table w \<and> storage w1 = storage w \<and> rideRequests w1 = rideRequests w \<and>
     console w1 = console w \<and> toasts w1 = toasts w \<and> calls w1 = calls w @ [(SelectId v, fst (call (SelectId v) w))]"
  by (auto simp: remote_select_id_def split: prod.splits fault.splits list.splits dest!: call_frame)

lemma remote_insert_frame:
  "remote_insert row w = (r, w1) \<Longrightarrow>
     storage w1 = storage w \<and> rideRequests w1 = rideRequests w \<and>
     console w1 = console w \<and> toasts w1 = toasts w \<and> calls w1 = calls w @ [(Insert row, fst (call (Insert row) w))]"
  by (auto simp: remote_insert_def split: prod.splits fault.splits dest!: call_frame)

lemma remote_update_frame:
  "remote_update u x w = (r, w1) \<Longrightarrow>
     storage w1 = storage w \<and> rideRequests w1 = rideRequests w \<and>
     console w1 = console w \<and> toasts w1 = toasts w \<and> calls w1 = calls w @ [(Update u x, fst (call (Update u x) w))]"
  by (auto simp: remote_update_def split: prod.splits fault.splits dest!: call_frame)

lemma remote_update_table:
  "remote_update u x w = (r, w1) \<Longrightarrow>
     table w1 = (if fst (call (Update u x) w) = Succeeds
                 then map (\<lambda>r. if id_col r = JStr x then apply_patch u r else r) (table w)
                 else table w)
     \<and> (r = Throws) = (fst (call (Update u x) w) = Rejects)"
  by (auto simp: remote_update_def split: prod.splits fault.splits dest!: call_frame)

lemma remote_select_all_storage:
  "remote_select_all (w\<lparr>storage := item\<rparr>) =
     (fst (remote_select_all w), (snd (remote_select_all w))\<lparr>storage := item\<rparr>)"
  by (simp add: remote_select_all_def call_def split: list.splits fault.splits)

lemma sync_Cons_cases [case_names check_throws found not_a_string insert_throws inserted]:
  obtains
    w1 where "remote_select_id (id' e) w = (Throws, w1)"
      and "sync p (e # es) w = (Some RemoteFailure, w1)"
  | x err w1 where "remote_select_id (id' e) w = (Reply (Some x) err, w1)"
      and "sync p (e # es) w = sync p es w1"
  | err w1 er where "remote_select_id (id' e) w = (Reply None err, w1)"
      and "dbRequest p e = Inl er" and "sync p (e # es) w = (Some er, w1)"
  | err w1 row w2 where "remote_select_id (id' e) w = (Reply None err, w1)"
      and "dbRequest p e = Inr row" and "remote_insert row w1 = (Throws, w2)"
      and "sync p (e # es) w = (Some RemoteFailure, w2)"
  | err w1 row d err' w2 where "remote_select_id (id' e) w = (Reply None err, w1)"
      and "dbRequest p e = Inr row" and "remote_insert row w1 = (Reply d err', w2)"
      and "sync p (e # es) w = sync p es w2"
proof -
  obtain a w1 where s: "remote_select_id (id' e) w = (a, w1)"
    by (cases "remote_select_id (id' e) w")
  show thesis
  proof (cases a)
    case Throws
    with s that(1) show ?thesis by simp
  next
    case (Reply d err)
    show ?thesis
    proof (cases d)
      case (Some x)
      with s Reply that(2) show ?thesis by simp
    next
      case None
      show ?thesis
      proof (cases "dbRequest p e")
        case (Inl er)
        with s Reply None that(3) show ?thesis by simp
      next
        case (Inr row)
        obtain b w2 where i: "remote_insert row w1 = (b, w2)"
          by (cases "remote_insert row w1")
        show ?thesis
        proof (cases b)
          case Throws
          with s Reply None Inr i that(4) show ?thesis by simp
        next
          case r: (Reply d' err')
          with s Reply None Inr i that(5) show ?thesis by simp
        qed
      qed
    qed
  qed
qed

lemma sync_frame:
  "sync p rs w = (e, w') \<Longrightarrow>
     storage w' = storage w \<and> rideRequests w' = rideRequests w \<and>
     console w' = console w \<and> toasts w' = toasts w"
proof (induction rs arbitrary: w)
  case Nil
  then show ?case by simp
next
  case (Cons r rs)
  show ?case
  proof (cases rule: sync_Cons_cases [of r w p rs])
    case (check_throws w1)
    with Cons.prems remote_select_id_frame [OF check_throws(1)] show ?thesis by simp
  next
    case (found x err w1)
    with Cons.prems Cons.IH [of w1] remote_select_id_frame [OF found(1)] show ?thesis by simp
  next
    case (not_a_string err w1 er)
    with Cons.prems remote_select_id_frame [OF not_a_string(1)] show ?thesis by simp
  next
    case (insert_throws err w1 row w2)
    with Cons.prems remote_select_id_frame [OF insert_throws(1)]
      remote_insert_frame [OF insert_throws(3)] show ?thesis by simp
  next
    case (inserted err w1 row d err' w2)
    with Cons.prems Cons.IH [of w2] remote_select_id_frame [OF inserted(1)]
      remote_insert_frame [OF inserted(3)] show ?thesis by simp
  qed
qed

subsection \<open>What JSON.parse delivers\<close>

lemma of_json_defined: "of_json j \<noteq> Undefined"
  by (cases j) simp_all

lemma JSON_parse_array_defined:
  assumes "JSON_parse t = Inr (JArr xs)"
  shows "Undefined \<notin> set xs"
proof -
  from assms obtain j where j: "of_json j = JArr xs"
    by (auto simp: JSON_parse_def split: json_text.splits)
  then obtain js where "xs = map of_json js"
    by (cases j) auto
  then show ?thesis using of_json_defined [THEN not_sym] by auto
qed

subsection \<open>The shape of a load\<close>

lemma fallback_rideRequests:
  "rideRequests (snd (fallback p w)) =
     (case JSON_parse (item_or_empty_list (storage w)) of
        Inl e \<Rightarrow> rideRequests w
      | Inr v \<Rightarrow> (case processRideRequests p v of Inl e \<Rightarrow> rideRequests w | Inr rs \<Rightarrow> rs))"
proof (cases "JSON_parse (item_or_empty_list (storage w))")
  case (Inl e)
  then show ?thesis by (simp add: fallback_def)
next
  case (Inr v)
  show ?thesis
  proof (cases "processRideRequests p v")
    case (Inl e)
    with Inr show ?thesis by (simp add: fallback_def)
  next
    case r: (Inr rs)
    obtain e w2 where s: "sync p rs (w\<lparr>rideRequests := rs\<rparr>) = (e, w2)"
      by (cases "sync p rs (w\<lparr>rideRequests := rs\<rparr>)")
    from sync_frame [OF s] have "rideRequests w2 = rs" by simp
    with Inr r s show ?thesis
      by (cases e) (simp_all add: fallback_def Let_def console_error_def)
  qed
qed

lemma fallback_outcome:
  "fst (fallback p w) =
     (case JSON_parse (item_or_empty_list (storage w)) of
        Inl e \<Rightarrow> Raised e
      | Inr v \<Rightarrow> (case processRideRequests p v of Inl e \<Rightarrow> Raised e | Inr rs \<Rightarrow> Returned))"
  by (auto simp: fallback_def Let_def split: sum.splits prod.splits option.splits)

text \<open>When the query does not deliver a row, the load is the fall-back.\<close>

lemma load_is_fallback:
  assumes s: "remote_select_all w = (r, w1)"
    and z: "\<not> (\<exists>rows. r = Reply (Some rows) None \<and> rows \<noteq> [])"
  shows "loadRideRequests p w =
     fallback p (if r = Throws
                 then console_error ''Error loading ride requests from database:'' RemoteFailure w1
                 else w1)"
proof (cases r)
  case Throws
  with s show ?thesis by (simp add: loadRideRequests_def)
next
  case (Reply d e)
  with z s show ?thesis
    by (cases d; cases e) (auto simp: loadRideRequests_def)
qed

lemma map_throwing_total:
  "(\<And>x. x \<in> set xs \<Longrightarrow> f x = Inr (g x)) \<Longrightarrow> map_throwing f xs = Inr (map g xs)"
  by (induction xs) auto

lemma map_throwing_set:
  "map_throwing f xs = Inr ys \<Longrightarrow> y \<in> set ys \<Longrightarrow> \<exists>x \<in> set xs. f x = Inr y"
  by (induction xs arbitrary: ys) (auto split: sum.splits)

subsection \<open>The shape of an action\<close>

lemma handleRideAction_alt:
  "handleRideAction p user x a w =
     (case remote_update (update_of p user a) x (local_update x a w) of
        (Throws, w') \<Rightarrow>
          (console_error ''Error updating ride request in database:'' RemoteFailure w')
            \<lparr>toasts := toasts w' @
               [(''Ride Request Updated'', ''Ride request has been '' @ action_text a @ ''ed.'')]\<rparr>
      | (Reply d err, w') \<Rightarrow>
          w'\<lparr>toasts := toasts w' @
               [(''Ride Request Updated'', ''Ride request has been '' @ action_text a @ ''ed.'')]\<rparr>)"
  unfolding handleRideAction_def Let_def console_error_def
  by (simp split: prod.splits reply.splits)

lemma call_fst_local: "fst (call rq (local_update x a w)) = fst (call rq w)"
  by (simp add: call_def local_update_def split: list.splits)

lemma handleRideAction_rideRequests:
  "rideRequests (handleRideAction p user x a w) = updatedRequests (rideRequests w) x a"
proof -
  obtain r w' where u: "remote_update (update_of p user a) x (local_update x a w) = (r, w')"
    by (cases "remote_update (update_of p user a) x (local_update x a w)")
  from remote_update_frame [OF u] u show ?thesis
    by (cases r) (simp_all add: handleRideAction_alt console_error_def local_update_def)
qed

lemma handleRideAction_storage:
  "storage (handleRideAction p user x a w) =
     Some (JSON_stringify (JArr (map obj_of (updatedRequests (rideRequests w) x a))))"
proof -
  obtain r w' where u: "remote_update (update_of p user a) x (local_update x a w) = (r, w')"
    by (cases "remote_update (update_of p user a) x (local_update x a w)")
  from remote_update_frame [OF u] u show ?thesis
    by (cases r) (simp_all add: handleRideAction_alt console_error_def local_update_def)
qed

lemma handleRideAction_calls:
  "calls (handleRideAction p user x a w) =
     calls w @ [(Update (update_of p user a) x, fst (call (Update (update_of p user a) x) w))]"
proof -
  obtain r w' where u: "remote_update (update_of p user a) x (local_update x a w) = (r, w')"
    by (cases "remote_update (update_of p user a) x (local_update x a w)")
  have t: "calls (local_update x a w) = calls w" by (simp add: local_update_def)
  from remote_update_frame [OF u] u show ?thesis
    by (cases r) (simp_all add: handleRideAction_alt console_error_def call_fst_local t)
qed

lemma handleRideAction_toasts:
  "toasts (handleRideAction p user x a w) =
     toasts w @ [(''Ride Request Updated'', ''Ride request has been '' @ action_text a @ ''ed.'')]"
proof -
  obtain r w' where u: "remote_update (update_of p user a) x (local_update x a w) = (r, w')"
    by (cases "remote_update (update_of p user a) x (local_update x a w)")
  from remote_update_frame [OF u] u show ?thesis
    by (cases r) (simp_all add: handleRideAction_alt console_error_def local_update_def)
qed

lemma handleRideAction_table:
  "table (handleRideAction p user x a w) =
     (if fst (call (Update (update_of p user a) x) w) = Succeeds
      then map (\<lambda>r. if id_col r = JStr x then apply_patch (update_of p user a) r else r) (table w)
      else table w)"
proof -
  obtain r w' where u: "remote_update (update_of p user a) x (local_update x a w) = (r, w')"
    by (cases "remote_update (update_of p user a) x (local_update x a w)")
  have t: "table (local_update x a w) = table w" by (simp add: local_update_def)
  from remote_update_table [OF u] u show ?thesis
    by (cases r) (simp_all add: handleRideAction_alt console_error_def call_fst_local t)
qed

lemma handleRideAction_console:
  "console (handleRideAction p user x a w) =
     (if fst (call (Update (update_of p user a) x) w) = Rejects
      then console w @ [ConsoleError ''Error updating ride request in database:'' RemoteFailure]
      else console w)"
proof -
  obtain r w' where u: "remote_update (update_of p user a) x (local_update x a w) = (r, w')"
    by (cases "remote_update (update_of p user a) x (local_update x a w)")
  have t: "console (local_update x a w) = console w" by (simp add: local_update_def)
  from remote_update_table [OF u] remote_update_frame [OF u] u show ?thesis
    by (cases r) (simp_all add: handleRideAction_alt console_error_def call_fst_local t)
qed

subsection \<open>The status stays in its enumeration\<close>

lemma processRideRequest_valid: "processRideRequest p x = Inr r \<Longrightarrow> valid_status (status r)"
  by (auto simp: processRideRequest_def validateStatus_def valid_status_def split: if_splits)

lemma processRideRequests_valid:
  "processRideRequests p v = Inr rs \<Longrightarrow> r \<in> set rs \<Longrightarrow> valid_status (status r)"
  by (auto simp: processRideRequests_def split: jsval.splits
      dest!: map_throwing_set processRideRequest_valid)

lemma fromDb_valid: "valid_status (status (fromDb p r))"
  by (simp add: fromDb_def validateStatus_def valid_status_def)

lemma fallback_valid:
  assumes "fst (fallback p w) = Returned \<or> (\<forall>r \<in> set (rideRequests w). valid_status (status r))"
  shows "\<forall>r \<in> set (rideRequests (snd (fallback p w))). valid_status (status r)"
  using assms
  by (auto simp: fallback_rideRequests fallback_outcome split: sum.splits
      dest: processRideRequests_valid)

lemma load_valid:
  assumes "fst (loadRideRequests p w) = Returned
           \<or> (\<forall>r \<in> set (rideRequests w). valid_status (status r))"
  shows "\<forall>r \<in> set (rideRequests (snd (loadRideRequests p w))). valid_status (status r)"
proof -
  obtain r w1 where s: "remote_select_all w = (r, w1)" by (cases "remote_select_all w")
  from remote_select_all_frame [OF s] have rr: "rideRequests w1 = rideRequests w" by simp
  show ?thesis
  proof (cases "\<exists>rows. r = Reply (Some rows) None \<and> rows \<noteq> []")
    case True
    then obtain rows where "r = Reply (Some rows) None" "rows \<noteq> []" by blast
    with s have "rideRequests (snd (loadRideRequests p w)) = map (fromDb p) rows"
      by (simp add: loadRideRequests_def)
    then show ?thesis by (simp add: fromDb_valid)
  next
    case False
    define w2 where "w2 = (if r = Throws
       then console_error ''Error loading ride requests from database:'' RemoteFailure w1 else w1)"
    have l: "loadRideRequests p w = fallback p w2"
      unfolding w2_def using s False by (rule load_is_fallback)
    have "rideRequests w2 = rideRequests w" by (simp add: w2_def rr console_error_def)
    with assms l
    have "fst (fallback p w2) = Returned \<or> (\<forall>r \<in> set (rideRequests w2). valid_status (status r))"
      by simp
    from fallback_valid [OF this] l show ?thesis by simp
  qed
qed

subsection \<open>The load from a cached list\<close>

lemma load_normalizes_cache:
  assumes "remote_select_all w = (r, w1)"
    and "\<not> (\<exists>rows. r = Reply (Some rows) None \<and> rows \<noteq> [])"
    and "JSON_parse (item_or_empty_list (storage w)) = Inr (JArr cached)"
    and "Null \<notin> set cached"
  shows "fst (loadRideRequests p w) = Returned
    \<and> processRideRequests p (JArr cached) = Inr (map (\<lambda>x. projr (processRideRequest p x)) cached)
    \<and> rideRequests (snd (loadRideRequests p w)) = map (\<lambda>x. projr (processRideRequest p x)) cached"
proof -
  let ?norm = "\<lambda>x. projr (processRideRequest p x)"
  have u: "Undefined \<notin> set cached"
    using assms(3) by (rule JSON_parse_array_defined)
  have "x \<in> set cached \<Longrightarrow> processRideRequest p x = Inr (?norm x)" for x
    using assms(4) u by (auto simp: processRideRequest_def)
  then have pr: "processRideRequests p (JArr cached) = Inr (map ?norm cached)"
    by (simp add: processRideRequests_def map_throwing_total)
  define w2 where "w2 = (if r = Throws
     then console_error ''Error loading ride requests from database:'' RemoteFailure w1 else w1)"
  have l: "loadRideRequests p w = fallback p w2"
    unfolding w2_def using assms(1,2) by (rule load_is_fallback)
  have "storage w2 = storage w"
    using remote_select_all_frame [OF assms(1)] by (simp add: w2_def console_error_def)
  with l assms(3) pr show ?thesis
    by (simp add: fallback_rideRequests fallback_outcome)
qed

lemma of_json_Null: "(of_json j = Null) = (j = Json_null)"
  by (cases j) simp_all


subsection \<open>C1: a remote result with rows is what the page shows\<close>

text \<open>
  C1. When the select-all query resolves without an error and with at least one row, the
  load returns and the displayed list has one entry per remote row, in order: \<open>id\<close>,
  \<open>pickupLocation\<close> and \<open>destination\<close> are the row's, \<open>studentName\<close> is \<open>student_id\<close>,
  \<open>studentEmail\<close> is \<open>student_id\<close> followed by \<^verbatim>\<open>@example.com\<close>, date and time are
  formatted from \<open>created_at\<close> (from the clock when it is falsy), the status is the
  row's when that is \<^verbatim>\<open>accepted\<close>, \<^verbatim>\<open>completed\<close> or \<^verbatim>\<open>declined\<close> and \<^verbatim>\<open>pending\<close>
  otherwise, \<open>disabilityType\<close> is \<^verbatim>\<open>Not specified\<close> and \<open>additionalNotes\<close> is
  \<^verbatim>\<open>From database\<close>. Whatever \<^verbatim>\<open>localStorage\<close> holds, the displayed list is the same.
\<close>

theorem load_shows_remote_rows:
  assumes "remote_select_all w = (Reply (Some rows) None, w1)" and "rows \<noteq> []"
  shows "fst (loadRideRequests p w) = Returned
    \<and> length (rideRequests (snd (loadRideRequests p w))) = length rows
    \<and> (\<forall>i < length rows.
         rideRequests (snd (loadRideRequests p w)) ! i =
           \<lparr>id' = id_col (rows ! i),
            studentName = JStr (student_id (rows ! i)),
            studentEmail = JStr (student_id (rows ! i) @ ''@example.com''),
            pickupLocation = pickup_location (rows ! i),
            destination = destination_col (rows ! i),
            date = JStr (toLocaleDateString p
                     (if truthy (created_at (rows ! i)) then created_at (rows ! i) else now p)),
            time = JStr (toLocaleTimeString p
                     (if truthy (created_at (rows ! i)) then created_at (rows ! i) else now p)),
            status =
              (if status_col (rows ! i) = ''accepted'' then ''accepted''
               else if status_col (rows ! i) = ''completed'' then ''completed''
               else if status_col (rows ! i) = ''declined'' then ''declined''
               else ''pending''),
            disabilityType = JStr ''Not specified'',
            additionalNotes = JStr ''From database''\<rparr>)
    \<and> (\<forall>item. rideRequests (snd (loadRideRequests p (w\<lparr>storage := item\<rparr>))) =
                 rideRequests (snd (loadRideRequests p w)))"
proof -
  have a: "fst (loadRideRequests p w) = Returned"
    and b: "rideRequests (snd (loadRideRequests p w)) = map (fromDb p) rows"
    using assms by (simp_all add: loadRideRequests_def)
  have c: "rideRequests (snd (loadRideRequests p (w\<lparr>storage := item\<rparr>))) = map (fromDb p) rows"
    for item
    using assms by (simp add: loadRideRequests_def remote_select_all_storage)
  show ?thesis
    unfolding b c using a by (simp add: fromDb_def validateStatus_def js_or_def)
qed

theorem load_shows_remote_rows_witness:
  "remote_select_all (demo_world\<lparr>table := [demo_row_accepted, demo_row]\<rparr>) =
     (Reply (Some [demo_row_accepted, demo_row]) None,
      demo_world\<lparr>table := [demo_row_accepted, demo_row], calls := [(SelectAll, Succeeds)]\<rparr>)
   \<and> [demo_row_accepted, demo_row] \<noteq> []
   \<and> (0::nat) < length [demo_row_accepted, demo_row]
   \<and> (1::nat) < length [demo_row_accepted, demo_row]
   \<and> rideRequests (snd (loadRideRequests demo_reading_platform
         (demo_world\<lparr>table := [demo_row_accepted, demo_row]\<rparr>))) ! 0 =
       \<lparr>id' = JStr ''2'', studentName = JStr ''omar'', studentEmail = JStr ''omar@example.com'',
        pickupLocation = JStr ''Dormitory'', destination = JStr ''Lecture hall'',
        date = JStr ''2024-05-01'', time = JStr ''08:30:00'', status = ''accepted'',
        disabilityType = JStr ''Not specified'', additionalNotes = JStr ''From database''\<rparr>
   \<and> rideRequests (snd (loadRideRequests demo_reading_platform
         (demo_world\<lparr>table := [demo_row_accepted, demo_row]\<rparr>))) ! 1 =
       \<lparr>id' = JStr ''1'', studentName = JStr ''amina'', studentEmail = JStr ''amina@example.com'',
        pickupLocation = JStr ''Library'', destination = JStr ''Clinic'',
        date = JStr ''1/1/1970'', time = JStr ''12:00:00 AM'', status = ''pending'',
        disabilityType = JStr ''Not specified'', additionalNotes = JStr ''From database''\<rparr>
   \<and> rideRequests (snd (loadRideRequests demo_reading_platform
         (demo_world\<lparr>table := [demo_row_accepted, demo_row], storage := Some BadText\<rparr>))) =
       rideRequests (snd (loadRideRequests demo_reading_platform
         (demo_world\<lparr>table := [demo_row_accepted, demo_row]\<rparr>)))"
proof -
  let ?w = "demo_world\<lparr>table := [demo_row_accepted, demo_row]\<rparr>"
  have h: "remote_select_all ?w =
     (Reply (Some [demo_row_accepted, demo_row]) None,
      demo_world\<lparr>table := [demo_row_accepted, demo_row], calls := [(SelectAll, Succeeds)]\<rparr>)"
    by (simp add: remote_select_all_def call_def demo_world_def)
  have n: "[demo_row_accepted, demo_row] \<noteq> []" by simp
  note run = load_shows_remote_rows [OF h n, of demo_reading_platform]
  from run have e0: "rideRequests (snd (loadRideRequests demo_reading_platform ?w)) ! 0 =
       \<lparr>id' = JStr ''2'', studentName = JStr ''omar'', studentEmail = JStr ''omar@example.com'',
        pickupLocation = JStr ''Dormitory'', destination = JStr ''Lecture hall'',
        date = JStr ''2024-05-01'', time = JStr ''08:30:00'', status = ''accepted'',
        disabilityType = JStr ''Not specified'', additionalNotes = JStr ''From database''\<rparr>"
    by (simp add: demo_row_accepted_def demo_reading_platform_def)
  from run have e1: "rideRequests (snd (loadRideRequests demo_reading_platform ?w)) ! 1 =
       \<lparr>id' = JStr ''1'', studentName = JStr ''amina'', studentEmail = JStr ''amina@example.com'',
        pickupLocation = JStr ''Library'', destination = JStr ''Clinic'',
        date = JStr ''1/1/1970'', time = JStr ''12:00:00 AM'', status = ''pending'',
        disabilityType = JStr ''Not specified'', additionalNotes = JStr ''From database''\<rparr>"
    by (simp add: demo_row_def demo_reading_platform_def)
  from run have s: "rideRequests (snd (loadRideRequests demo_reading_platform (?w\<lparr>storage := Some BadText\<rparr>))) =
       rideRequests (snd (loadRideRequests demo_reading_platform ?w))"
    by blast
  from h e0 e1 s show ?thesis by simp
qed

subsection \<open>C2: without remote rows the page shows the normalized cache\<close>




subsection \<open>C3: an action changes the entries with the given id and no other\<close>

text \<open>
  C3. After the accept, decline or complete action with id \<open>x\<close>, the list has the length
  it had, every entry whose id is \<open>x\<close> has its status set to \<^verbatim>\<open>accepted\<close>, \<^verbatim>\<open>declined\<close> or
  \<^verbatim>\<open>completed\<close> respectively and is otherwise as it was, and every other entry is
  unchanged.
\<close>

theorem action_changes_only_matching_entry:
  "length (rideRequests (handleRideAction p user x a w)) = length (rideRequests w)
   \<and> (\<forall>i < length (rideRequests w).
        rideRequests (handleRideAction p user x a w) ! i =
          (if id' (rideRequests w ! i) = JStr x
           then (rideRequests w ! i)\<lparr>status := newStatus a\<rparr>
           else rideRequests w ! i))
   \<and> newStatus Accept = ''accepted'' \<and> newStatus Decline = ''declined''
   \<and> newStatus Complete = ''completed''"
  by (simp add: handleRideAction_rideRequests updatedRequests_def newStatus_def)

theorem action_changes_only_matching_entry_witness:
  "(0::nat) < length [demo_entry ''1'', demo_entry ''2'']
   \<and> (1::nat) < length [demo_entry ''1'', demo_entry ''2'']
   \<and> rideRequests (handleRideAction demo_platform Null ''2'' Decline
        (demo_world\<lparr>rideRequests := [demo_entry ''1'', demo_entry ''2'']\<rparr>)) ! 0 = demo_entry ''1''
   \<and> rideRequests (handleRideAction demo_platform Null ''2'' Decline
        (demo_world\<lparr>rideRequests := [demo_entry ''1'', demo_entry ''2'']\<rparr>)) ! 1 =
       (demo_entry ''2'')\<lparr>status := ''declined''\<rparr>"
  using action_changes_only_matching_entry
    [of demo_platform Null "''2''" Decline
        "demo_world\<lparr>rideRequests := [demo_entry ''1'', demo_entry ''2'']\<rparr>"]
  by (simp add: demo_entry_def)

subsection \<open>C4: declined is rejected remotely, and does not come back\<close>

text \<open>
  C4. The status sent to the remote table is the local one with \<^verbatim>\<open>declined\<close> replaced by
  \<^verbatim>\<open>rejected\<close> and every other status unchanged, both in the update of an action and in
  the row inserted by the load. \<open>validateStatus\<close> yields \<^verbatim>\<open>declined\<close> only for
  \<^verbatim>\<open>declined\<close> itself, which is no status of the remote enumeration: so no remote status
  is read back as \<^verbatim>\<open>declined\<close>, nothing a local status was mapped to is, and
  \<^verbatim>\<open>declined\<close> comes back as \<^verbatim>\<open>pending\<close>.
\<close>

theorem declined_maps_to_rejected_one_way:
  "statusForDb a = (if newStatus a = ''declined'' then ''rejected'' else newStatus a)
   \<and> (dbRequest p request = Inr row \<longrightarrow>
        status_col row = (if status request = ''declined'' then ''rejected'' else status request))
   \<and> (\<forall>s \<in> set remote_statuses. validateStatus (JStr s) \<noteq> ''declined'')
   \<and> (validateStatus v = ''declined'') = (v = JStr ''declined'')
   \<and> validateStatus (JStr (statusForDb a)) \<noteq> ''declined''
   \<and> validateStatus (JStr (if st = ''declined'' then ''rejected'' else st)) \<noteq> ''declined''
   \<and> validateStatus (JStr (statusForDb Decline)) = ''pending''"
proof -
  have "dbRequest p request = Inr row \<longrightarrow>
        status_col row = (if status request = ''declined'' then ''rejected'' else status request)"
    by (auto simp: dbRequest_def split: sum.splits)
  moreover have "statusForDb a = (if newStatus a = ''declined'' then ''rejected'' else newStatus a)"
    by (cases a) (simp_all add: statusForDb_def newStatus_def)
  moreover have "\<forall>s \<in> set remote_statuses. validateStatus (JStr s) \<noteq> ''declined''"
    by (simp add: remote_statuses_def validateStatus_def)
  moreover have "(validateStatus v = ''declined'') = (v = JStr ''declined'')"
    by (simp add: validateStatus_def)
  moreover have "validateStatus (JStr (statusForDb a)) \<noteq> ''declined''"
    by (cases a) (simp_all add: statusForDb_def validateStatus_def)
  moreover have "validateStatus (JStr (if st = ''declined'' then ''rejected'' else st)) \<noteq> ''declined''"
    by (simp add: validateStatus_def)
  moreover have "validateStatus (JStr (statusForDb Decline)) = ''pending''"
    by (simp add: statusForDb_def validateStatus_def)
  ultimately show ?thesis by blast
qed

theorem declined_maps_to_rejected_one_way_witness:
  "dbRequest demo_platform ((demo_entry ''1'')\<lparr>status := ''declined''\<rparr>) =
     Inr \<lparr>id_col = JStr ''1'', student_id = ''amina'', driver_id = Null,
          pickup_location = JStr ''Library'', destination_col = JStr ''Clinic'',
          status_col = ''rejected'', created_at = JStr ''1970-01-01T00:00:00.000Z'',
          updated_at = JStr ''1970-01-01T00:00:00.000Z''\<rparr>
   \<and> ''rejected'' \<in> set remote_statuses
   \<and> validateStatus (JStr ''rejected'') = ''pending''
   \<and> statusForDb Decline = ''rejected''"
  using declined_maps_to_rejected_one_way
    [of Decline demo_platform "(demo_entry ''1'')\<lparr>status := ''declined''\<rparr>"
        "\<lparr>id_col = JStr ''1'', student_id = ''amina'', driver_id = Null,
          pickup_location = JStr ''Library'', destination_col = JStr ''Clinic'',
          status_col = ''rejected'', created_at = JStr ''1970-01-01T00:00:00.000Z'',
          updated_at = JStr ''1970-01-01T00:00:00.000Z''\<rparr>"]
  by (simp add: dbRequest_def email_prefix_def demo_entry_def demo_platform_def
      remote_statuses_def statusForDb_def newStatus_def validateStatus_def)

subsection \<open>The sync on a store that executes every call, and when a check fails\<close>

lemma call_succeeds:
  "set (script w) \<subseteq> {Succeeds} \<Longrightarrow>
     call rq w = (Succeeds, w\<lparr>script := tl (script w), calls := calls w @ [(rq, Succeeds)]\<rparr>)"
  by (cases "script w") (auto simp: call_def)

lemma filter_distinct_key:
  "distinct (map f xs) \<Longrightarrow>
     (v \<notin> f ` set xs \<longrightarrow> filter (\<lambda>x. f x = v) xs = [])
     \<and> (v \<in> f ` set xs \<longrightarrow> (\<exists>r. filter (\<lambda>x. f x = v) xs = [r] \<and> f r = v))"
proof (induction xs)
  case Nil
  then show ?case by simp
next
  case (Cons x xs)
  then show ?case
    by (cases "f x = v") (auto simp: filter_empty_conv)
qed

lemma remote_select_id_succeeds:
  assumes "set (script w) \<subseteq> {Succeeds}" and "distinct (map id_col (table w))"
  shows "remote_select_id v w =
     (if v \<in> id_col ` set (table w) then Reply (Some (JObj [(''id'', v)])) None else Reply None None,
      w\<lparr>script := tl (script w), calls := calls w @ [(SelectId v, Succeeds)]\<rparr>)"
proof (cases "v \<in> id_col ` set (table w)")
  case True
  with filter_distinct_key [OF assms(2), of v]
  obtain r where "filter (\<lambda>x. id_col x = v) (table w) = [r]" "id_col r = v" by blast
  with True show ?thesis by (simp add: remote_select_id_def call_succeeds [OF assms(1)])
next
  case False
  with filter_distinct_key [OF assms(2), of v]
  have "filter (\<lambda>x. id_col x = v) (table w) = []" by blast
  with False show ?thesis by (simp add: remote_select_id_def call_succeeds [OF assms(1)])
qed

lemma remote_insert_succeeds:
  assumes "set (script w) \<subseteq> {Succeeds}"
  shows "remote_insert row w =
     (Reply None None,
      w\<lparr>script := tl (script w), calls := calls w @ [(Insert row, Succeeds)],
        table := table w @ [row]\<rparr>)"
  by (simp add: remote_insert_def call_succeeds [OF assms])

lemma tl_succeeds: "set xs \<subseteq> {Succeeds} \<Longrightarrow> set (tl xs) \<subseteq> {Succeeds}"
  by (cases xs) auto

lemma dbRequest_id: "dbRequest p e = Inr row \<Longrightarrow> id_col row = id' e"
  by (auto simp: dbRequest_def split: sum.splits)

lemma sync_calls_grow: "\<exists>cs. calls (snd (sync p es w)) = calls w @ cs"
proof (induction es arbitrary: w)
  case Nil
  then show ?case by simp
next
  case (Cons e es)
  show ?case
  proof (cases rule: sync_Cons_cases [of e w p es])
    case (check_throws w1)
    with remote_select_id_frame [OF check_throws(1)] show ?thesis by simp
  next
    case (found x err w1)
    with Cons.IH [of w1] remote_select_id_frame [OF found(1)] show ?thesis by auto
  next
    case (not_a_string err w1 er)
    with remote_select_id_frame [OF not_a_string(1)] show ?thesis by simp
  next
    case (insert_throws err w1 row w2)
    with remote_select_id_frame [OF insert_throws(1)] remote_insert_frame [OF insert_throws(3)]
    show ?thesis by simp
  next
    case (inserted err w1 row d err' w2)
    with Cons.IH [of w2] remote_select_id_frame [OF inserted(1)]
      remote_insert_frame [OF inserted(3)] show ?thesis by auto
  qed
qed

lemma sync_after_failed_check:
  assumes "script w = Fails # fs" and "dbRequest p e = Inr row"
  shows "\<exists>cs. calls (snd (sync p (e # es) w)) =
           calls w @ (SelectId (id' e), Fails)
             # (Insert row, (case fs of [] \<Rightarrow> Succeeds | f # fs' \<Rightarrow> f)) # cs"
proof -
  let ?w1 = "w\<lparr>script := fs, calls := calls w @ [(SelectId (id' e), Fails)]\<rparr>"
  have sel: "remote_select_id (id' e) w = (Reply None (Some ''error''), ?w1)"
    using assms(1) by (simp add: remote_select_id_def call_def)
  obtain b w2 where i: "remote_insert row ?w1 = (b, w2)" by (cases "remote_insert row ?w1")
  from remote_insert_frame [OF i]
  have c2: "calls w2 = calls w @ [(SelectId (id' e), Fails),
              (Insert row, (case fs of [] \<Rightarrow> Succeeds | f # fs' \<Rightarrow> f))]"
    by (simp add: call_def split: list.splits)
  show ?thesis
  proof (cases b)
    case Throws
    with sel assms(2) i c2 show ?thesis by simp
  next
    case (Reply d err)
    with sel assms(2) i have eq: "sync p (e # es) w = sync p es w2" by simp
    from sync_calls_grow [of p es w2] obtain cs where "calls (snd (sync p es w2)) = calls w2 @ cs"
      by blast
    with eq c2 show ?thesis by simp
  qed
qed

lemma sync_after_thrown_check:
  assumes "script w = Rejects # fs"
  shows "sync p (e # es) w =
     (Some RemoteFailure, w\<lparr>script := fs, calls := calls w @ [(SelectId (id' e), Rejects)]\<rparr>)"
  using assms by (simp add: remote_select_id_def call_def)

lemma dbRequest_of_string:
  "studentEmail e = JStr s \<Longrightarrow> dbRequest p e = Inr (backfill_row p e s)"
  by (simp add: dbRequest_def email_prefix_def backfill_row_def)

lemma sync_on_working_store:
  assumes "set (script w) \<subseteq> {Succeeds}" and "distinct (map id_col (table w))"
    and "map studentEmail es = map JStr emails"
  shows "calls (snd (sync p es w)) =
           calls w @ map (\<lambda>q. (q, Succeeds)) (backfill_requests p (table w) (zip es emails))
       \<and> table (snd (sync p es w)) = backfilled p (table w) (zip es emails)"
  using assms
proof (induction es arbitrary: w emails)
  case Nil
  then show ?case by simp
next
  case (Cons e es)
  from Cons.prems(3) obtain s ss where emails: "emails = s # ss"
    and s: "studentEmail e = JStr s" and ss: "map studentEmail es = map JStr ss"
    by (cases emails) auto
  let ?row = "backfill_row p e s"
  let ?w1 = "w\<lparr>script := tl (script w), calls := calls w @ [(SelectId (id' e), Succeeds)]\<rparr>"
  note sel = remote_select_id_succeeds [OF Cons.prems(1,2), of "id' e"]
  have s1: "set (script ?w1) \<subseteq> {Succeeds}" using Cons.prems(1) by (simp add: tl_succeeds)
  have d1: "distinct (map id_col (table ?w1))" using Cons.prems(2) by simp
  show ?case
  proof (cases "id' e \<in> id_col ` set (table w)")
    case True
    with sel have "sync p (e # es) w = sync p es ?w1" by simp
    with Cons.IH [OF s1 d1 ss] True emails show ?thesis by simp
  next
    case False
    let ?w2 = "?w1\<lparr>script := tl (script ?w1), calls := calls ?w1 @ [(Insert ?row, Succeeds)],
                   table := table ?w1 @ [?row]\<rparr>"
    have row: "dbRequest p e = Inr ?row" using s by (rule dbRequest_of_string)
    have ins: "remote_insert ?row ?w1 = (Reply None None, ?w2)"
      using s1 by (rule remote_insert_succeeds)
    have s2: "set (script ?w2) \<subseteq> {Succeeds}" using s1 by (simp add: tl_succeeds)
    have d2: "distinct (map id_col (table ?w2))"
      using Cons.prems(2) False by (simp add: backfill_row_def)
    from sel False row ins have "sync p (e # es) w = sync p es ?w2" by simp
    with Cons.IH [OF s2 d2 ss] False emails show ?thesis by simp
  qed
qed

lemma fallback_on_working_store:
  assumes "JSON_parse (item_or_empty_list (storage w)) = Inr v"
    and "processRideRequests p v = Inr es"
    and "set (script w) \<subseteq> {Succeeds}" and "distinct (map id_col (table w))"
    and "map studentEmail es = map JStr emails"
  shows "calls (snd (fallback p w)) =
           calls w @ map (\<lambda>q. (q, Succeeds)) (backfill_requests p (table w) (zip es emails))
       \<and> table (snd (fallback p w)) = backfilled p (table w) (zip es emails)"
proof (cases es)
  case Nil
  with assms(1,2) show ?thesis by (simp add: fallback_def)
next
  case (Cons x xs)
  let ?w1 = "w\<lparr>rideRequests := es\<rparr>"
  obtain r w2 where s: "sync p es ?w1 = (r, w2)" by (cases "sync p es ?w1")
  have "set (script ?w1) \<subseteq> {Succeeds}" "distinct (map id_col (table ?w1))"
    using assms(3,4) by simp_all
  from sync_on_working_store [OF this assms(5), of p] s
  have "calls w2 = calls w @ map (\<lambda>q. (q, Succeeds)) (backfill_requests p (table w) (zip es emails))"
    and "table w2 = backfilled p (table w) (zip es emails)"
    by simp_all
  with assms(1,2) s Cons show ?thesis
    by (cases r) (simp_all add: fallback_def Let_def console_error_def)
qed

lemma failed_check_has_no_row:
  "script v = Fails # fs \<Longrightarrow>
     remote_select_id i v =
       (Reply None (Some ''error''), v\<lparr>script := fs, calls := calls v @ [(SelectId i, Fails)]\<rparr>)"
  by (simp add: remote_select_id_def call_def)

lemma sync_inserts_after_empty_check:
  assumes "remote_select_id (id' e) v = (Reply None err, v1)" and "studentEmail e = JStr s"
  shows "\<exists>r v2. remote_insert (backfill_row p e s) v1 = (r, v2)
     \<and> calls v2 = calls v @ [(SelectId (id' e), fst (call (SelectId (id' e)) v)),
                             (Insert (backfill_row p e s), fst (call (Insert (backfill_row p e s)) v1))]
     \<and> sync p (e # es) v = (if r = Throws then (Some RemoteFailure, v2) else sync p es v2)"
proof -
  obtain r v2 where i: "remote_insert (backfill_row p e s) v1 = (r, v2)"
    by (cases "remote_insert (backfill_row p e s) v1")
  from remote_select_id_frame [OF assms(1)] remote_insert_frame [OF i]
  have c: "calls v2 = calls v @ [(SelectId (id' e), fst (call (SelectId (id' e)) v)),
                             (Insert (backfill_row p e s), fst (call (Insert (backfill_row p e s)) v1))]"
    by simp
  have "sync p (e # es) v = (if r = Throws then (Some RemoteFailure, v2) else sync p es v2)"
    using assms(1) i dbRequest_of_string [OF assms(2), of p] by (cases r) simp_all
  with i c show ?thesis by blast
qed

lemma sync_stops_at_non_string:
  assumes "remote_select_id (id' e) v = (Reply None err, v1)" and "\<forall>s. studentEmail e \<noteq> JStr s"
  shows "sync p (e # es) v = (Some TypeError, v1)"
proof -
  from assms(2) have "dbRequest p e = Inl TypeError"
    by (cases "studentEmail e") (simp_all add: dbRequest_def email_prefix_def)
  with assms(1) show ?thesis by simp
qed

subsection \<open>C5: the sync inserts what the existence check does not find\<close>

text \<open>
  C5, as the code has it. After the fall-back to a cached array, the load goes through
  the normalized entries in order. For an entry whose \<open>studentEmail\<close> is a string, it
  sends the existence check for the entry's id; when the response carries a row it goes
  on to the next entry without an insert, and when the response carries no row it sends
  the insert of the row derived from the entry (same id, pickup and destination,
  \<^verbatim>\<open>declined\<close> written as \<^verbatim>\<open>rejected\<close>, \<open>driver_id\<close> \<^verbatim>\<open>null\<close>) and then goes on. A check or
  an insert that throws ends the loop, and so does an entry without a row whose
  \<open>studentEmail\<close> is not a string. A check that reports an error carries no row,
  whatever the table holds. When every \<open>studentEmail\<close> is a string, every call after
  the select-all succeeds and the ids of the table are distinct, the requests sent are
  those of \<open>backfill_requests\<close> and the table becomes \<open>backfilled\<close>: a check for every
  entry, and an insert exactly for the entries whose id no row has.
\<close>

theorem backfill_follows_check_responses:
  assumes "remote_select_all w = (r, w1)"
    and "r = Throws \<or> (\<exists>d e. r = Reply d e \<and> (e \<noteq> None \<or> d = None \<or> d = Some []))"
    and "storage w = Some (JsonText (Json_arr js))" and "Json_null \<notin> set js"
    and "map studentEmail (rideRequests (snd (loadRideRequests p w))) = map JStr emails"
    and "set (script w1) \<subseteq> {Succeeds}"
    and "distinct (map id_col (table w))"
  shows "map id' (rideRequests (snd (loadRideRequests p w))) = map (\<lambda>j. js_get (of_json j) ''id'') js
    \<and> calls (snd (loadRideRequests p w)) =
           calls w1 @ map (\<lambda>q. (q, Succeeds))
             (backfill_requests p (table w) (zip (rideRequests (snd (loadRideRequests p w))) emails))
    \<and> table (snd (loadRideRequests p w)) =
           backfilled p (table w) (zip (rideRequests (snd (loadRideRequests p w))) emails)
    \<and> (\<forall>v e es y err v1. remote_select_id (id' e) v = (Reply (Some y) err, v1) \<longrightarrow>
          sync p (e # es) v = sync p es v1
          \<and> calls v1 = calls v @ [(SelectId (id' e), fst (call (SelectId (id' e)) v))])
    \<and> (\<forall>v e es err v1 s. remote_select_id (id' e) v = (Reply None err, v1) \<and> studentEmail e = JStr s \<longrightarrow>
          (\<exists>r v2. remote_insert (backfill_row p e s) v1 = (r, v2)
             \<and> calls v2 = calls v @ [(SelectId (id' e), fst (call (SelectId (id' e)) v)),
                   (Insert (backfill_row p e s), fst (call (Insert (backfill_row p e s)) v1))]
             \<and> sync p (e # es) v = (if r = Throws then (Some RemoteFailure, v2) else sync p es v2)))
    \<and> (\<forall>v e es v1. remote_select_id (id' e) v = (Throws, v1) \<longrightarrow>
          sync p (e # es) v = (Some RemoteFailure, v1))
    \<and> (\<forall>v e es err v1. remote_select_id (id' e) v = (Reply None err, v1)
            \<and> (\<forall>s. studentEmail e \<noteq> JStr s) \<longrightarrow>
          sync p (e # es) v = (Some TypeError, v1))
    \<and> (\<forall>v i fs. script v = Fails # fs \<longrightarrow>
          remote_select_id i v =
            (Reply None (Some ''error''), v\<lparr>script := fs, calls := calls v @ [(SelectId i, Fails)]\<rparr>))"
proof -
  let ?es = "rideRequests (snd (loadRideRequests p w))"
  have z: "\<not> (\<exists>rows. r = Reply (Some rows) None \<and> rows \<noteq> [])"
    using assms(2) by auto
  from assms(3) have parse: "JSON_parse (item_or_empty_list (storage w)) = Inr (JArr (map of_json js))"
    by (simp add: item_or_empty_list_def JSON_parse_def)
  have nonnull: "Null \<notin> set (map of_json js)"
  proof
    assume "Null \<in> set (map of_json js)"
    then obtain j where "j \<in> set js" and "of_json j = Null" by auto
    with assms(4) show False by (simp add: of_json_Null)
  qed
  from load_normalizes_cache [OF assms(1) z parse nonnull, of p]
  have pr: "processRideRequests p (JArr (map of_json js)) = Inr ?es"
    and es: "?es = map (\<lambda>x. projr (processRideRequest p x)) (map of_json js)"
    by simp_all
  have ids: "map id' ?es = map (\<lambda>j. js_get (of_json j) ''id'') js"
  proof -
    have "id' (projr (processRideRequest p (of_json j))) = js_get (of_json j) ''id''"
      if "j \<in> set js" for j
    proof -
      from that assms(4) have "of_json j \<noteq> Null \<and> of_json j \<noteq> Undefined"
        by (auto simp: of_json_Null of_json_defined)
      then show ?thesis by (simp add: processRideRequest_def)
    qed
    then show ?thesis unfolding es by simp
  qed
  define w2 where "w2 = (if r = Throws
     then console_error ''Error loading ride requests from database:'' RemoteFailure w1 else w1)"
  have l: "loadRideRequests p w = fallback p w2"
    unfolding w2_def using assms(1) z by (rule load_is_fallback)
  from remote_select_all_frame [OF assms(1)]
  have f: "storage w2 = storage w" "table w2 = table w" "calls w2 = calls w1" "script w2 = script w1"
    by (simp_all add: w2_def console_error_def)
  have "JSON_parse (item_or_empty_list (storage w2)) = Inr (JArr (map of_json js))"
    and "set (script w2) \<subseteq> {Succeeds}" and "distinct (map id_col (table w2))"
    using parse assms(6,7) f by simp_all
  from fallback_on_working_store [OF this(1) pr this(2,3) assms(5)] l f
  have a: "calls (snd (loadRideRequests p w)) =
           calls w1 @ map (\<lambda>q. (q, Succeeds)) (backfill_requests p (table w) (zip ?es emails))"
    and b: "table (snd (loadRideRequests p w)) = backfilled p (table w) (zip ?es emails)"
    by simp_all
  have g1: "\<forall>v e es y err v1. remote_select_id (id' e) v = (Reply (Some y) err, v1) \<longrightarrow>
          sync p (e # es) v = sync p es v1
          \<and> calls v1 = calls v @ [(SelectId (id' e), fst (call (SelectId (id' e)) v))]"
    using remote_select_id_frame by auto
  have g2: "\<forall>v e es err v1 s. remote_select_id (id' e) v = (Reply None err, v1) \<and> studentEmail e = JStr s \<longrightarrow>
          (\<exists>r v2. remote_insert (backfill_row p e s) v1 = (r, v2)
             \<and> calls v2 = calls v @ [(SelectId (id' e), fst (call (SelectId (id' e)) v)),
                   (Insert (backfill_row p e s), fst (call (Insert (backfill_row p e s)) v1))]
             \<and> sync p (e # es) v = (if r = Throws then (Some RemoteFailure, v2) else sync p es v2))"
    using sync_inserts_after_empty_check by blast
  have g3: "\<forall>v e es v1. remote_select_id (id' e) v = (Throws, v1) \<longrightarrow>
          sync p (e # es) v = (Some RemoteFailure, v1)"
    by simp
  have g5: "\<forall>v e es err v1. remote_select_id (id' e) v = (Reply None err, v1)
            \<and> (\<forall>s. studentEmail e \<noteq> JStr s) \<longrightarrow>
          sync p (e # es) v = (Some TypeError, v1)"
    using sync_stops_at_non_string by blast
  have g4: "\<forall>v i fs. script v = Fails # fs \<longrightarrow>
          remote_select_id i v =
            (Reply None (Some ''error''), v\<lparr>script := fs, calls := calls v @ [(SelectId i, Fails)]\<rparr>)"
    using failed_check_has_no_row by blast
  show ?thesis
    by (rule conjI, rule ids, rule conjI, rule a, rule conjI, rule b, rule conjI, rule g1,
        rule conjI, rule g2, rule conjI, rule g3, rule conjI, rule g5, rule g4)
qed

theorem backfill_follows_check_responses_witness:
  "remote_select_all
      (demo_world\<lparr>table := [demo_row\<lparr>id_col := JStr ''7''\<rparr>], script := [Fails],
         storage := Some (JsonText (Json_arr demo_cached_pair))\<rparr>) =
     (Reply None (Some ''error''),
      demo_world\<lparr>table := [demo_row\<lparr>id_col := JStr ''7''\<rparr>], script := [],
         storage := Some (JsonText (Json_arr demo_cached_pair)), calls := [(SelectAll, Fails)]\<rparr>)
   \<and> Json_null \<notin> set demo_cached_pair
   \<and> map studentEmail (rideRequests (snd (loadRideRequests demo_platform
        (demo_world\<lparr>table := [demo_row\<lparr>id_col := JStr ''7''\<rparr>], script := [Fails],
           storage := Some (JsonText (Json_arr demo_cached_pair))\<rparr>)))) =
       map JStr [''unknown@email.com'', ''omar@school.edu'']
   \<and> distinct (map id_col [demo_row\<lparr>id_col := JStr ''7''\<rparr>])
   \<and> map id' (rideRequests (snd (loadRideRequests demo_platform
        (demo_world\<lparr>table := [demo_row\<lparr>id_col := JStr ''7''\<rparr>], script := [Fails],
           storage := Some (JsonText (Json_arr demo_cached_pair))\<rparr>)))) = [JStr ''7'', JStr ''8'']
   \<and> calls (snd (loadRideRequests demo_platform
        (demo_world\<lparr>table := [demo_row\<lparr>id_col := JStr ''7''\<rparr>], script := [Fails],
           storage := Some (JsonText (Json_arr demo_cached_pair))\<rparr>))) =
       [(SelectAll, Fails), (SelectId (JStr ''7''), Succeeds), (SelectId (JStr ''8''), Succeeds),
        (Insert \<lparr>id_col = JStr ''8'', student_id = ''omar'', driver_id = Null,
                 pickup_location = JStr [], destination_col = JStr [],
                 status_col = ''rejected'', created_at = JStr ''1970-01-01T00:00:00.000Z'',
                 updated_at = JStr ''1970-01-01T00:00:00.000Z''\<rparr>, Succeeds)]
   \<and> table (snd (loadRideRequests demo_platform
        (demo_world\<lparr>table := [demo_row\<lparr>id_col := JStr ''7''\<rparr>], script := [Fails],
           storage := Some (JsonText (Json_arr demo_cached_pair))\<rparr>))) =
       [demo_row\<lparr>id_col := JStr ''7''\<rparr>,
        \<lparr>id_col = JStr ''8'', student_id = ''omar'', driver_id = Null,
                 pickup_location = JStr [], destination_col = JStr [],
                 status_col = ''rejected'', created_at = JStr ''1970-01-01T00:00:00.000Z'',
                 updated_at = JStr ''1970-01-01T00:00:00.000Z''\<rparr>]
   \<and> sync demo_platform [demo_entry ''1'', demo_entry ''2'']
        (demo_world\<lparr>table := [demo_row], script := [Succeeds, Succeeds]\<rparr>) =
       sync demo_platform [demo_entry ''2'']
        (demo_world\<lparr>table := [demo_row], script := [Succeeds],
           calls := [(SelectId (JStr ''1''), Succeeds)]\<rparr>)
   \<and> sync demo_platform [demo_entry ''1'', demo_entry ''2''] (demo_world\<lparr>script := [Fails]\<rparr>) =
       sync demo_platform [demo_entry ''2'']
        (demo_world\<lparr>table := [\<lparr>id_col = JStr ''1'', student_id = ''amina'', driver_id = Null,
            pickup_location = JStr ''Library'', destination_col = JStr ''Clinic'',
            status_col = ''pending'', created_at = JStr ''1970-01-01T00:00:00.000Z'',
            updated_at = JStr ''1970-01-01T00:00:00.000Z''\<rparr>],
          script := [],
          calls := [(SelectId (JStr ''1''), Fails),
            (Insert \<lparr>id_col = JStr ''1'', student_id = ''amina'', driver_id = Null,
                 pickup_location = JStr ''Library'', destination_col = JStr ''Clinic'',
                 status_col = ''pending'', created_at = JStr ''1970-01-01T00:00:00.000Z'',
                 updated_at = JStr ''1970-01-01T00:00:00.000Z''\<rparr>, Succeeds)]\<rparr>)
   \<and> sync demo_platform [demo_entry ''1'', demo_entry ''2''] (demo_world\<lparr>script := [Rejects]\<rparr>) =
       (Some RemoteFailure,
        demo_world\<lparr>script := [], calls := [(SelectId (JStr ''1''), Rejects)]\<rparr>)
   \<and> sync demo_platform [(demo_entry ''1'')\<lparr>studentEmail := JBool True\<rparr>, demo_entry ''2'']
        (demo_world\<lparr>script := [Succeeds]\<rparr>) =
       (Some TypeError,
        demo_world\<lparr>script := [], calls := [(SelectId (JStr ''1''), Succeeds)]\<rparr>)
   \<and> remote_select_id (JStr ''1'') (demo_world\<lparr>table := [demo_row], script := [Fails]\<rparr>) =
       (Reply None (Some ''error''),
        demo_world\<lparr>table := [demo_row], script := [], calls := [(SelectId (JStr ''1''), Fails)]\<rparr>)"
proof -
  let ?w = "demo_world\<lparr>table := [demo_row\<lparr>id_col := JStr ''7''\<rparr>], script := [Fails],
         storage := Some (JsonText (Json_arr demo_cached_pair))\<rparr>"
  let ?w1 = "demo_world\<lparr>table := [demo_row\<lparr>id_col := JStr ''7''\<rparr>], script := [],
         storage := Some (JsonText (Json_arr demo_cached_pair)), calls := [(SelectAll, Fails)]\<rparr>"
  have h1: "remote_select_all ?w = (Reply None (Some ''error''), ?w1)"
    by (simp add: remote_select_all_def call_def demo_world_def)
  have h2: "Reply None (Some ''error'') = Throws \<or>
     (\<exists>d e. Reply None (Some ''error'') = Reply d e
        \<and> (e \<noteq> None \<or> d = None \<or> d = (Some []::db_row list option)))"
    by simp
  have h3: "storage ?w = Some (JsonText (Json_arr demo_cached_pair))" by simp
  have p3: "JSON_parse (item_or_empty_list (storage ?w)) = Inr (JArr (map of_json demo_cached_pair))"
    by (simp add: JSON_parse_def item_or_empty_list_def)
  have h4: "Json_null \<notin> set demo_cached_pair"
    by (simp add: demo_cached_pair_def)
  have p4: "Null \<notin> set (map of_json demo_cached_pair)"
    by (simp add: demo_cached_pair_def)
  have h6: "set (script ?w1) \<subseteq> {Succeeds}" by simp
  have h7: "distinct (map id_col (table ?w))" by simp
  have z: "\<not> (\<exists>rows. Reply None (Some ''error'') = Reply (Some rows) None \<and> rows \<noteq> ([]::db_row list))"
    by simp
  from load_normalizes_cache [OF h1 z p3 p4, of demo_platform]
  have es: "rideRequests (snd (loadRideRequests demo_platform ?w)) =
      [\<lparr>id' = JStr ''7'', studentName = JStr ''Unknown'', studentEmail = JStr ''unknown@email.com'',
         pickupLocation = JStr [], destination = JStr [],
         date = JStr ''1/1/1970'', time = JStr ''12:00:00 AM'', status = ''pending'',
         disabilityType = JStr ''Not specified'', additionalNotes = Undefined\<rparr>,
       \<lparr>id' = JStr ''8'', studentName = JStr ''Unknown'', studentEmail = JStr ''omar@school.edu'',
         pickupLocation = JStr [], destination = JStr [],
         date = JStr ''1/1/1970'', time = JStr ''12:00:00 AM'', status = ''declined'',
         disabilityType = JStr ''Not specified'', additionalNotes = Undefined\<rparr>]"
    by (simp add: processRideRequest_def demo_cached_pair_def demo_platform_def js_or_def
        validateStatus_def)
  have h5: "map studentEmail (rideRequests (snd (loadRideRequests demo_platform ?w))) =
       map JStr [''unknown@email.com'', ''omar@school.edu'']"
    unfolding es by simp
  note t = backfill_follows_check_responses [OF h1 h2 h3 h4 h5 h6 h7]
  note t1 = t [THEN conjunct1]
    and t2 = t [THEN conjunct2, THEN conjunct1]
    and t3 = t [THEN conjunct2, THEN conjunct2, THEN conjunct1]
    and t4 = t [THEN conjunct2, THEN conjunct2, THEN conjunct2, THEN conjunct1]
    and t5 = t [THEN conjunct2, THEN conjunct2, THEN conjunct2, THEN conjunct2, THEN conjunct1]
    and t6 = t [THEN conjunct2, THEN conjunct2, THEN conjunct2, THEN conjunct2, THEN conjunct2,
                THEN conjunct1]
    and t7 = t [THEN conjunct2, THEN conjunct2, THEN conjunct2, THEN conjunct2, THEN conjunct2,
                THEN conjunct2, THEN conjunct1]
    and t8 = t [THEN conjunct2, THEN conjunct2, THEN conjunct2, THEN conjunct2, THEN conjunct2,
                THEN conjunct2, THEN conjunct2]
  have "map id' (rideRequests (snd (loadRideRequests demo_platform ?w))) =
      map (\<lambda>j. js_get (of_json j) ''id'') demo_cached_pair"
    and "calls (snd (loadRideRequests demo_platform ?w)) =
           calls ?w1 @ map (\<lambda>q. (q, Succeeds))
             (backfill_requests demo_platform (table ?w)
                (zip (rideRequests (snd (loadRideRequests demo_platform ?w)))
                   [''unknown@email.com'', ''omar@school.edu'']))"
    and "table (snd (loadRideRequests demo_platform ?w)) =
           backfilled demo_platform (table ?w)
             (zip (rideRequests (snd (loadRideRequests demo_platform ?w)))
                [''unknown@email.com'', ''omar@school.edu''])"
    by (rule t1, rule t2, rule t3)
  note run = this(2,3) [unfolded es] and ids = this(1)
  have c1: "map id' (rideRequests (snd (loadRideRequests demo_platform ?w))) = [JStr ''7'', JStr ''8'']"
    using ids by (simp add: demo_cached_pair_def)
  have c2: "calls (snd (loadRideRequests demo_platform ?w)) =
       [(SelectAll, Fails), (SelectId (JStr ''7''), Succeeds), (SelectId (JStr ''8''), Succeeds),
        (Insert \<lparr>id_col = JStr ''8'', student_id = ''omar'', driver_id = Null,
                 pickup_location = JStr [], destination_col = JStr [],
                 status_col = ''rejected'', created_at = JStr ''1970-01-01T00:00:00.000Z'',
                 updated_at = JStr ''1970-01-01T00:00:00.000Z''\<rparr>, Succeeds)]"
    and c3: "table (snd (loadRideRequests demo_platform ?w)) =
       [demo_row\<lparr>id_col := JStr ''7''\<rparr>,
        \<lparr>id_col = JStr ''8'', student_id = ''omar'', driver_id = Null,
                 pickup_location = JStr [], destination_col = JStr [],
                 status_col = ''rejected'', created_at = JStr ''1970-01-01T00:00:00.000Z'',
                 updated_at = JStr ''1970-01-01T00:00:00.000Z''\<rparr>]"
    using run by (simp_all add: backfill_row_def demo_platform_def demo_row_def)
  have i: "id' (demo_entry ''1'') = JStr ''1''" by (simp add: demo_entry_def)
  have m: "studentEmail (demo_entry ''1'') = JStr ''amina@school.edu''" by (simp add: demo_entry_def)
  have row: "backfill_row demo_platform (demo_entry ''1'') ''amina@school.edu'' =
       \<lparr>id_col = JStr ''1'', student_id = ''amina'', driver_id = Null,
            pickup_location = JStr ''Library'', destination_col = JStr ''Clinic'',
            status_col = ''pending'', created_at = JStr ''1970-01-01T00:00:00.000Z'',
            updated_at = JStr ''1970-01-01T00:00:00.000Z''\<rparr>"
    by (simp add: backfill_row_def demo_entry_def demo_platform_def)
  have s1: "remote_select_id (id' (demo_entry ''1''))
        (demo_world\<lparr>table := [demo_row], script := [Succeeds, Succeeds]\<rparr>) =
      (Reply (Some (JObj [(''id'', JStr ''1'')])) None,
       demo_world\<lparr>table := [demo_row], script := [Succeeds],
           calls := [(SelectId (JStr ''1''), Succeeds)]\<rparr>)"
    by (simp add: i remote_select_id_def call_def demo_world_def demo_row_def)
  have "\<forall>v e es y err v1. remote_select_id (id' e) v = (Reply (Some y) err, v1) \<longrightarrow>
          sync demo_platform (e # es) v = sync demo_platform es v1
          \<and> calls v1 = calls v @ [(SelectId (id' e), fst (call (SelectId (id' e)) v))]"
    by (rule t4)
  from this [rule_format, OF s1]
  have c4: "sync demo_platform [demo_entry ''1'', demo_entry ''2'']
        (demo_world\<lparr>table := [demo_row], script := [Succeeds, Succeeds]\<rparr>) =
       sync demo_platform [demo_entry ''2'']
        (demo_world\<lparr>table := [demo_row], script := [Succeeds],
           calls := [(SelectId (JStr ''1''), Succeeds)]\<rparr>)"
    by simp
  have s2: "remote_select_id (id' (demo_entry ''1'')) (demo_world\<lparr>script := [Fails]\<rparr>) =
      (Reply None (Some ''error''),
       demo_world\<lparr>script := [], calls := [(SelectId (JStr ''1''), Fails)]\<rparr>)"
    by (simp add: i remote_select_id_def call_def demo_world_def)
  have "\<forall>v e es err v1 s. remote_select_id (id' e) v = (Reply None err, v1) \<and> studentEmail e = JStr s \<longrightarrow>
          (\<exists>r v2. remote_insert (backfill_row demo_platform e s) v1 = (r, v2)
             \<and> calls v2 = calls v @ [(SelectId (id' e), fst (call (SelectId (id' e)) v)),
                   (Insert (backfill_row demo_platform e s), fst (call (Insert (backfill_row demo_platform e s)) v1))]
             \<and> sync demo_platform (e # es) v = (if r = Throws then (Some RemoteFailure, v2) else sync demo_platform es v2))"
    by (rule t5)
  from this [rule_format, OF conjI, OF s2 m, of "[demo_entry ''2'']"]
  have c5: "sync demo_platform [demo_entry ''1'', demo_entry ''2''] (demo_world\<lparr>script := [Fails]\<rparr>) =
       sync demo_platform [demo_entry ''2'']
        (demo_world\<lparr>table := [\<lparr>id_col = JStr ''1'', student_id = ''amina'', driver_id = Null,
            pickup_location = JStr ''Library'', destination_col = JStr ''Clinic'',
            status_col = ''pending'', created_at = JStr ''1970-01-01T00:00:00.000Z'',
            updated_at = JStr ''1970-01-01T00:00:00.000Z''\<rparr>],
          script := [],
          calls := [(SelectId (JStr ''1''), Fails),
            (Insert \<lparr>id_col = JStr ''1'', student_id = ''amina'', driver_id = Null,
                 pickup_location = JStr ''Library'', destination_col = JStr ''Clinic'',
                 status_col = ''pending'', created_at = JStr ''1970-01-01T00:00:00.000Z'',
                 updated_at = JStr ''1970-01-01T00:00:00.000Z''\<rparr>, Succeeds)]\<rparr>)"
    by (auto simp: row remote_insert_def call_def demo_world_def)
  have s3: "remote_select_id (id' (demo_entry ''1'')) (demo_world\<lparr>script := [Rejects]\<rparr>) =
      (Throws, demo_world\<lparr>script := [], calls := [(SelectId (JStr ''1''), Rejects)]\<rparr>)"
    by (simp add: i remote_select_id_def call_def demo_world_def)
  have "\<forall>v e es v1. remote_select_id (id' e) v = (Throws, v1) \<longrightarrow>
          sync demo_platform (e # es) v = (Some RemoteFailure, v1)"
    by (rule t6)
  from this [rule_format, OF s3]
  have c6: "sync demo_platform [demo_entry ''1'', demo_entry ''2''] (demo_world\<lparr>script := [Rejects]\<rparr>) =
       (Some RemoteFailure,
        demo_world\<lparr>script := [], calls := [(SelectId (JStr ''1''), Rejects)]\<rparr>)"
    by simp
  have s4: "remote_select_id (id' ((demo_entry ''1'')\<lparr>studentEmail := JBool True\<rparr>))
        (demo_world\<lparr>script := [Succeeds]\<rparr>) =
      (Reply None None, demo_world\<lparr>script := [], calls := [(SelectId (JStr ''1''), Succeeds)]\<rparr>)"
    by (simp add: i remote_select_id_def call_def demo_world_def)
  have m4: "\<forall>s. studentEmail ((demo_entry ''1'')\<lparr>studentEmail := JBool True\<rparr>) \<noteq> JStr s"
    by simp
  have "\<forall>v e es err v1. remote_select_id (id' e) v = (Reply None err, v1)
            \<and> (\<forall>s. studentEmail e \<noteq> JStr s) \<longrightarrow>
          sync demo_platform (e # es) v = (Some TypeError, v1)"
    by (rule t7)
  from this [rule_format, OF conjI, OF s4 m4, of "[demo_entry ''2'']"]
  have c8: "sync demo_platform [(demo_entry ''1'')\<lparr>studentEmail := JBool True\<rparr>, demo_entry ''2'']
        (demo_world\<lparr>script := [Succeeds]\<rparr>) =
       (Some TypeError,
        demo_world\<lparr>script := [], calls := [(SelectId (JStr ''1''), Succeeds)]\<rparr>)"
    by simp
  have "\<forall>v i fs. script v = Fails # fs \<longrightarrow>
          remote_select_id i v =
            (Reply None (Some ''error''), v\<lparr>script := fs, calls := calls v @ [(SelectId i, Fails)]\<rparr>)"
    by (rule t8)
  from this [rule_format, of "demo_world\<lparr>table := [demo_row], script := [Fails]\<rparr>" "[]" "JStr ''1''"]
  have c7: "remote_select_id (JStr ''1'') (demo_world\<lparr>table := [demo_row], script := [Fails]\<rparr>) =
       (Reply None (Some ''error''),
        demo_world\<lparr>table := [demo_row], script := [], calls := [(SelectId (JStr ''1''), Fails)]\<rparr>)"
    by (simp add: demo_world_def)
  have d: "distinct (map id_col [demo_row\<lparr>id_col := JStr ''7''\<rparr>])" by simp
  show ?thesis
    by (rule conjI, rule h1, rule conjI, rule h4, rule conjI, rule h5, rule conjI, rule d,
        rule conjI, rule c1, rule conjI, rule c2, rule conjI, rule c3, rule conjI, rule c4,
        rule conjI, rule c5, rule conjI, rule c6, rule conjI, rule c8, rule c7)
qed

text \<open>
  The table has a row with id 7 and the cache an entry with id 7; the select-all and the
  existence check both report an error. The insert for id 7 is sent all the same, and
  the table ends with two rows of that id. And with entries 7 and 8 in the cache, when
  the check for 7 throws, no check is sent for 8.
\<close>

theorem failed_check_inserts_existing_id:
  "JStr ''7'' \<in> id_col ` set (table
      (demo_world\<lparr>table := [demo_row\<lparr>id_col := JStr ''7''\<rparr>], script := [Fails, Fails],
         storage := Some (JsonText (Json_arr demo_cached))\<rparr>))
   \<and> map fst (calls (snd (loadRideRequests demo_platform
      (demo_world\<lparr>table := [demo_row\<lparr>id_col := JStr ''7''\<rparr>], script := [Fails, Fails],
         storage := Some (JsonText (Json_arr demo_cached))\<rparr>)))) =
      [SelectAll, SelectId (JStr ''7''),
       Insert \<lparr>id_col = JStr ''7'', student_id = ''unknown'', driver_id = Null,
               pickup_location = JStr [], destination_col = JStr [],
               status_col = ''pending'', created_at = JStr ''1970-01-01T00:00:00.000Z'',
               updated_at = JStr ''1970-01-01T00:00:00.000Z''\<rparr>]
   \<and> map id_col (table (snd (loadRideRequests demo_platform
      (demo_world\<lparr>table := [demo_row\<lparr>id_col := JStr ''7''\<rparr>], script := [Fails, Fails],
         storage := Some (JsonText (Json_arr demo_cached))\<rparr>)))) = [JStr ''7'', JStr ''7'']
   \<and> map id' (rideRequests (snd (loadRideRequests demo_platform
      (demo_world\<lparr>script := [Fails, Rejects],
         storage := Some (JsonText (Json_arr demo_cached_pair))\<rparr>)))) = [JStr ''7'', JStr ''8'']
   \<and> calls (snd (loadRideRequests demo_platform
      (demo_world\<lparr>script := [Fails, Rejects],
         storage := Some (JsonText (Json_arr demo_cached_pair))\<rparr>))) =
      [(SelectAll, Fails), (SelectId (JStr ''7''), Rejects)]"
  by (simp add: loadRideRequests_def remote_select_all_def call_def demo_world_def fallback_def
      item_or_empty_list_def JSON_parse_def processRideRequests_def processRideRequest_def
      demo_cached_def demo_cached_pair_def console_error_def remote_select_id_def remote_insert_def dbRequest_def
      email_prefix_def demo_platform_def js_or_def validateStatus_def demo_row_def)

subsection \<open>Counting the calls that threw and the failures logged\<close>

lemma call_thrown:
  "call rq w = (f, w1) \<Longrightarrow> thrown (calls w1) = thrown (calls w) + (if f = Rejects then 1 else 0)"
  by (auto simp: call_def thrown_def split: list.splits)

lemma remote_select_all_thrown:
  "remote_select_all w = (r, w1) \<Longrightarrow>
     thrown (calls w1) = thrown (calls w) + (if r = Throws then 1 else 0)"
  by (auto simp: remote_select_all_def split: prod.splits fault.splits dest!: call_thrown)

lemma remote_select_id_thrown:
  "remote_select_id v w = (r, w1) \<Longrightarrow>
     thrown (calls w1) = thrown (calls w) + (if r = Throws then 1 else 0)"
  by (auto simp: remote_select_id_def split: prod.splits fault.splits list.splits dest!: call_thrown)

lemma remote_insert_thrown:
  "remote_insert row w = (r, w1) \<Longrightarrow>
     thrown (calls w1) = thrown (calls w) + (if r = Throws then 1 else 0)"
  by (auto simp: remote_insert_def split: prod.splits fault.splits dest!: call_thrown)

lemma remote_update_thrown:
  "remote_update u x w = (r, w1) \<Longrightarrow>
     thrown (calls w1) = thrown (calls w) + (if r = Throws then 1 else 0)"
  by (auto simp: remote_update_def split: prod.splits fault.splits dest!: call_thrown)

lemma sync_thrown:
  "sync p rs w = (e, w') \<Longrightarrow>
     thrown (calls w') = thrown (calls w) + (if e = Some RemoteFailure then 1 else 0)"
proof (induction rs arbitrary: w)
  case Nil
  then show ?case by simp
next
  case (Cons r rs)
  show ?case
  proof (cases rule: sync_Cons_cases [of r w p rs])
    case (check_throws w1)
    with Cons.prems remote_select_id_thrown [OF check_throws(1)] show ?thesis by simp
  next
    case (found x err w1)
    with Cons.prems Cons.IH [of w1] remote_select_id_thrown [OF found(1)] show ?thesis by simp
  next
    case (not_a_string err w1 er)
    then have "er = TypeError"
      by (auto simp: dbRequest_def email_prefix_def split: sum.splits jsval.splits)
    with not_a_string Cons.prems remote_select_id_thrown [OF not_a_string(1)] show ?thesis by auto
  next
    case (insert_throws err w1 row w2)
    with Cons.prems remote_select_id_thrown [OF insert_throws(1)]
      remote_insert_thrown [OF insert_throws(3)] show ?thesis by simp
  next
    case (inserted err w1 row d err' w2)
    with Cons.prems Cons.IH [of w2] remote_select_id_thrown [OF inserted(1)]
      remote_insert_thrown [OF inserted(3)] show ?thesis by simp
  qed
qed

lemma logged_failures_append [simp]:
  "logged_failures (es @ fs) = logged_failures es + logged_failures fs"
  by (simp add: logged_failures_def)

lemma fallback_logged:
  "logged_failures (console (snd (fallback p w))) + thrown (calls w) =
     logged_failures (console w) + thrown (calls (snd (fallback p w)))"
proof (cases "JSON_parse (item_or_empty_list (storage w))")
  case (Inl e)
  then show ?thesis by (simp add: fallback_def)
next
  case (Inr v)
  show ?thesis
  proof (cases "processRideRequests p v")
    case (Inl e)
    with Inr show ?thesis by (simp add: fallback_def)
  next
    case r: (Inr rs)
    obtain e w2 where s: "sync p rs (w\<lparr>rideRequests := rs\<rparr>) = (e, w2)"
      by (cases "sync p rs (w\<lparr>rideRequests := rs\<rparr>)")
    from sync_frame [OF s] have c: "console w2 = console w" by simp
    from sync_thrown [OF s]
    have t: "thrown (calls w2) = thrown (calls w) + (if e = Some RemoteFailure then 1 else 0)"
      by simp
    show ?thesis
    proof (cases rs)
      case Nil
      with Inr r show ?thesis by (simp add: fallback_def)
    next
      case (Cons x xs)
      with Inr r s c t show ?thesis
        by (cases e) (auto simp: fallback_def Let_def console_error_def logged_failures_def)
    qed
  qed
qed

lemma fallback_not_remote: "fst (fallback p w) \<noteq> Raised RemoteFailure"
proof -
  have "JSON_parse t \<noteq> Inl RemoteFailure" for t
    by (simp add: JSON_parse_def split: json_text.splits)
  moreover have "map_throwing (processRideRequest p) xs \<noteq> Inl RemoteFailure" for xs
    by (induction xs) (auto simp: processRideRequest_def split: sum.splits)
  then have "processRideRequests p v \<noteq> Inl RemoteFailure" for v
    by (cases v) (simp_all add: processRideRequests_def)
  ultimately show ?thesis
    by (auto simp: fallback_outcome split: sum.splits)
qed

lemma load_not_remote: "fst (loadRideRequests p w) \<noteq> Raised RemoteFailure"
proof -
  obtain r w1 where s: "remote_select_all w = (r, w1)" by (cases "remote_select_all w")
  show ?thesis
  proof (cases "\<exists>rows. r = Reply (Some rows) None \<and> rows \<noteq> []")
    case True
    with s show ?thesis by (auto simp: loadRideRequests_def)
  next
    case False
    from load_is_fallback [OF s False] show ?thesis by (simp add: fallback_not_remote)
  qed
qed

lemma load_logged:
  "logged_failures (console (snd (loadRideRequests p w))) + thrown (calls w) =
     logged_failures (console w) + thrown (calls (snd (loadRideRequests p w)))"
proof -
  obtain r w1 where s: "remote_select_all w = (r, w1)" by (cases "remote_select_all w")
  from remote_select_all_frame [OF s] have c: "console w1 = console w" by simp
  note t = remote_select_all_thrown [OF s]
  show ?thesis
  proof (cases "\<exists>rows. r = Reply (Some rows) None \<and> rows \<noteq> []")
    case True
    with s c t show ?thesis by (auto simp: loadRideRequests_def logged_failures_def)
  next
    case False
    define w2 where "w2 = (if r = Throws
       then console_error ''Error loading ride requests from database:'' RemoteFailure w1 else w1)"
    have l: "loadRideRequests p w = fallback p w2"
      unfolding w2_def using s False by (rule load_is_fallback)
    have "logged_failures (console w2) + thrown (calls w) = logged_failures (console w) + thrown (calls w2)"
      using c t by (simp add: w2_def console_error_def logged_failures_def)
    with fallback_logged [of p w2] l show ?thesis by simp
  qed
qed

lemma load_returns_on_readable_cache:
  assumes "JSON_parse (item_or_empty_list (storage w)) = Inr (JArr cached)" and "Null \<notin> set cached"
  shows "fst (loadRideRequests p w) = Returned"
proof -
  obtain r w1 where s: "remote_select_all w = (r, w1)" by (cases "remote_select_all w")
  show ?thesis
  proof (cases "\<exists>rows. r = Reply (Some rows) None \<and> rows \<noteq> []")
    case True
    with s show ?thesis by (auto simp: loadRideRequests_def)
  next
    case False
    from load_normalizes_cache [OF s False assms] show ?thesis by simp
  qed
qed

lemma handleRideAction_logged:
  "logged_failures (console (handleRideAction p user x a w)) + thrown (calls w) =
     logged_failures (console w) + thrown (calls (handleRideAction p user x a w))"
  by (simp add: handleRideAction_console handleRideAction_calls thrown_def logged_failures_def)

subsection \<open>C6: no failure of the remote store reaches the caller\<close>

text \<open>
  C6, as the code has it. The load never raises a failure of the remote store, and it
  returns whenever the cache holds a list of entries other than \<^verbatim>\<open>null\<close>; the action
  always updates the list and the cache and shows the confirmation. The console gets one
  entry for each remote call that threw, and none for a failure that a response reports
  in its \<open>error\<close>: in the load and in the action, the failures logged are as many as
  the calls that threw.
\<close>

theorem remote_failures_are_contained:
  "fst (loadRideRequests p w) \<noteq> Raised RemoteFailure
   \<and> ((\<exists>cached. JSON_parse (item_or_empty_list (storage w)) = Inr (JArr cached) \<and> Null \<notin> set cached)
        \<longrightarrow> fst (loadRideRequests p w) = Returned)
   \<and> logged_failures (console (snd (loadRideRequests p w))) + thrown (calls w) =
       logged_failures (console w) + thrown (calls (snd (loadRideRequests p w)))
   \<and> toasts (handleRideAction p user x a w) =
       toasts w @ [(''Ride Request Updated'', ''Ride request has been '' @ action_text a @ ''ed.'')]
   \<and> rideRequests (handleRideAction p user x a w) = updatedRequests (rideRequests w) x a
   \<and> storage (handleRideAction p user x a w) =
       Some (JSON_stringify (JArr (map obj_of (updatedRequests (rideRequests w) x a))))
   \<and> console (handleRideAction p user x a w) =
       (if fst (call (Update (update_of p user a) x) w) = Rejects
        then console w @ [ConsoleError ''Error updating ride request in database:'' RemoteFailure]
        else console w)
   \<and> logged_failures (console (handleRideAction p user x a w)) + thrown (calls w) =
       logged_failures (console w) + thrown (calls (handleRideAction p user x a w))"
  using load_not_remote [of p w] load_logged [of p w] handleRideAction_logged [of p user x a w]
    load_returns_on_readable_cache [of w _ p]
  by (auto simp: handleRideAction_toasts handleRideAction_rideRequests handleRideAction_storage
      handleRideAction_console)

theorem remote_failures_are_contained_witness:
  "JSON_parse (item_or_empty_list (storage
      (demo_world\<lparr>script := [Rejects, Rejects], storage := Some (JsonText (Json_arr demo_cached))\<rparr>))) =
     Inr (JArr (map of_json demo_cached))
   \<and> Null \<notin> set (map of_json demo_cached)
   \<and> fst (loadRideRequests demo_platform
      (demo_world\<lparr>script := [Rejects, Rejects], storage := Some (JsonText (Json_arr demo_cached))\<rparr>)) = Returned
   \<and> console (snd (loadRideRequests demo_platform
      (demo_world\<lparr>script := [Rejects, Rejects], storage := Some (JsonText (Json_arr demo_cached))\<rparr>))) =
      [ConsoleError ''Error loading ride requests from database:'' RemoteFailure,
       ConsoleError ''Error syncing ride requests to database:'' RemoteFailure]
   \<and> map snd (calls (snd (loadRideRequests demo_platform
      (demo_world\<lparr>script := [Rejects, Rejects], storage := Some (JsonText (Json_arr demo_cached))\<rparr>)))) =
      [Rejects, Rejects]"
proof -
  let ?w = "demo_world\<lparr>script := [Rejects, Rejects], storage := Some (JsonText (Json_arr demo_cached))\<rparr>"
  have h1: "JSON_parse (item_or_empty_list (storage ?w)) = Inr (JArr (map of_json demo_cached))"
    by (simp add: JSON_parse_def item_or_empty_list_def)
  have h2: "Null \<notin> set (map of_json demo_cached)"
    by (simp add: demo_cached_def)
  have "snd (loadRideRequests demo_platform ?w) =
      demo_world\<lparr>script := [], storage := Some (JsonText (Json_arr demo_cached)),
        calls := [(SelectAll, Rejects), (SelectId (JStr ''7''), Rejects)],
        rideRequests := [projr (processRideRequest demo_platform (of_json (hd demo_cached)))],
        console := [ConsoleError ''Error loading ride requests from database:'' RemoteFailure,
                    ConsoleError ''Error syncing ride requests to database:'' RemoteFailure]\<rparr>"
    by (simp add: loadRideRequests_def remote_select_all_def call_def demo_world_def fallback_def
        item_or_empty_list_def JSON_parse_def processRideRequests_def processRideRequest_def
        demo_cached_def console_error_def remote_select_id_def)
  with remote_failures_are_contained [of demo_platform ?w Null "''1''" Accept] h1 h2
  show ?thesis by auto
qed

text \<open>
  The select-all of a load, and the update of an action, resolve with an error: the
  console stays empty.
\<close>

theorem failure_in_response_is_not_logged:
  "calls (snd (loadRideRequests demo_platform (demo_world\<lparr>script := [Fails]\<rparr>))) = [(SelectAll, Fails)]
   \<and> console (snd (loadRideRequests demo_platform (demo_world\<lparr>script := [Fails]\<rparr>))) = []
   \<and> map snd (calls (handleRideAction demo_platform Null ''1'' Accept (demo_world\<lparr>script := [Fails]\<rparr>)))
       = [Fails]
   \<and> console (handleRideAction demo_platform Null ''1'' Accept (demo_world\<lparr>script := [Fails]\<rparr>)) = []"
proof -
  have "loadRideRequests demo_platform (demo_world\<lparr>script := [Fails]\<rparr>) =
      (Returned, demo_world\<lparr>script := [], calls := [(SelectAll, Fails)]\<rparr>)"
    by (simp add: loadRideRequests_def remote_select_all_def call_def demo_world_def fallback_def
        item_or_empty_list_def JSON_parse_def processRideRequests_def)
  then show ?thesis
    by (simp add: handleRideAction_calls handleRideAction_console call_def demo_world_def)
qed

subsection \<open>Values that JSON represents\<close>

lemma map_of_filter_absent: "k \<notin> fst ` set kvs \<Longrightarrow> map_of (filter P kvs) k = None"
  by (induction kvs) auto

lemma js_get_without_undefined:
  "distinct (map fst kvs) \<Longrightarrow>
     js_get (JObj (filter (\<lambda>kv. snd kv \<noteq> Undefined) kvs)) k = js_get (JObj kvs) k"
proof (induction kvs)
  case Nil
  then show ?case by simp
next
  case (Cons kv kvs)
  then have ih: "(case map_of (filter (\<lambda>kv. snd kv \<noteq> Undefined) kvs) k of None \<Rightarrow> Undefined | Some v \<Rightarrow> v)
        = (case map_of kvs k of None \<Rightarrow> Undefined | Some v \<Rightarrow> v)"
    by simp
  obtain k' v where kv: "kv = (k', v)" by (cases kv)
  show ?case
  proof (cases "k' = k")
    case True
    with Cons.prems kv have "k \<notin> fst ` set kvs" by auto
    then have "map_of (filter (\<lambda>kv. snd kv \<noteq> Undefined) kvs) k = None"
      by (rule map_of_filter_absent)
    with True kv show ?thesis by simp
  next
    case False
    with kv ih show ?thesis by simp
  qed
qed

lemma distinct_properties: "distinct (map fst (properties e))"
  by (simp add: properties_def)

lemma js_get_defined_properties: "js_get (defined_properties e) k = js_get (obj_of e) k"
  unfolding defined_properties_def obj_of_def
  using distinct_properties by (rule js_get_without_undefined)

lemma defined_properties_id:
  "Undefined \<notin> snd ` set (properties e) \<Longrightarrow> defined_properties e = obj_of e"
  by (simp add: defined_properties_def obj_of_def filter_id_conv) force

lemma json_value_survives: "json_value v \<Longrightarrow> of_json (to_json v) = v"
proof (induction v)
  case (JNum n)
  then show ?case by (cases n) simp_all
next
  case (JArr xs)
  then show ?case by (simp add: list_all_iff map_idI)
next
  case (JObj kvs)
  then have "\<forall>kv \<in> set kvs. json_value (snd kv)" by (simp add: list_all_iff)
  then have "filter (\<lambda>kv. snd kv \<noteq> Undefined) kvs = kvs"
    by (auto simp: filter_id_conv)
  moreover have "map (\<lambda>kv. (fst kv, of_json (to_json (snd kv)))) kvs = kvs"
    using JObj by (intro map_idI) (auto simp: list_all_iff snds.simps)
  ultimately show ?case by (simp add: comp_def)
qed simp_all

lemma restore_object:
  "list_all (\<lambda>kv. undefined_or_json (snd kv)) kvs \<Longrightarrow>
     of_json (to_json (JObj kvs)) = JObj (filter (\<lambda>kv. snd kv \<noteq> Undefined) kvs)"
  by (induction kvs) (auto simp: json_value_survives undefined_or_json_def)

lemma restore_entry: "storable e \<Longrightarrow> of_json (to_json (obj_of e)) = defined_properties e"
  by (simp add: storable_def obj_of_def defined_properties_def restore_object
      del: to_json.simps of_json.simps)

lemma undefined_or_json_JStr [simp]: "undefined_or_json (JStr s)"
  by (simp add: undefined_or_json_def)

lemma undefined_or_json_Undefined [simp]: "undefined_or_json Undefined"
  by (simp add: undefined_or_json_def)

lemma storable_status: "storable e \<Longrightarrow> storable (e\<lparr>status := s\<rparr>)"
  by (simp add: storable_def properties_def)

lemma storable_updatedRequests:
  "\<forall>e \<in> set es. storable e \<Longrightarrow> \<forall>e \<in> set (updatedRequests es x a). storable e"
  by (auto simp: updatedRequests_def storable_status)

lemma parsed_list:
  "JSON_parse (item_or_empty_list (Some (JSON_stringify (JArr (map obj_of es))))) =
     Inr (JArr (map (\<lambda>e. of_json (to_json (obj_of e))) es))"
  by (simp add: JSON_parse_def JSON_stringify_def item_or_empty_list_def comp_def)

subsection \<open>C7: what comes back from the cache after an action\<close>

text \<open>
  C7, as the code has it. After an action the cache holds the serialization of the whole
  updated list. When every property of every entry holds \<^verbatim>\<open>undefined\<close> or a value that
  JSON represents (\<^verbatim>\<open>null\<close>, a boolean, a string, a finite number other than \<^verbatim>\<open>-0\<close>, or
  an array or object of such values), parsing the cache gives, entry by entry, the
  updated entry without its properties that hold \<^verbatim>\<open>undefined\<close>: every property reads the
  same in both, and the parsed list is the updated list itself when, moreover, no
  property holds \<^verbatim>\<open>undefined\<close>. A number that is not finite comes back as \<^verbatim>\<open>null\<close>.
\<close>

theorem stored_list_restores_defined_properties:
  "JSON_parse (item_or_empty_list (storage (handleRideAction p user x a w))) =
     Inr (JArr (map (\<lambda>e. of_json (to_json (obj_of e)))
                 (rideRequests (handleRideAction p user x a w))))
   \<and> ((\<forall>e \<in> set (rideRequests w). storable e) \<longrightarrow>
        JSON_parse (item_or_empty_list (storage (handleRideAction p user x a w))) =
          Inr (JArr (map defined_properties (rideRequests (handleRideAction p user x a w)))))
   \<and> (\<forall>e k. js_get (defined_properties e) k = js_get (obj_of e) k)
   \<and> ((\<forall>e \<in> set (rideRequests w). storable e \<and> Undefined \<notin> snd ` set (properties e)) \<longrightarrow>
        JSON_parse (item_or_empty_list (storage (handleRideAction p user x a w))) =
          Inr (JArr (map obj_of (rideRequests (handleRideAction p user x a w)))))
   \<and> of_json (to_json (JNum Infinity)) = Null
   \<and> of_json (to_json (JNum NegInfinity)) = Null
   \<and> of_json (to_json (JNum NaN)) = Null"
proof -
  let ?es = "updatedRequests (rideRequests w) x a"
  let ?parsed = "JSON_parse (item_or_empty_list (storage (handleRideAction p user x a w)))"
  have a: "?parsed = Inr (JArr (map (\<lambda>e. of_json (to_json (obj_of e))) ?es))"
    by (simp only: handleRideAction_storage parsed_list)
  have b: "?parsed = Inr (JArr (map defined_properties ?es))"
    if "\<forall>e \<in> set (rideRequests w). storable e"
  proof -
    from that have "\<forall>e \<in> set ?es. storable e" by (rule storable_updatedRequests)
    then have "map (\<lambda>e. of_json (to_json (obj_of e))) ?es = map defined_properties ?es"
      by (simp add: restore_entry)
    with a show ?thesis by simp
  qed
  have c: "?parsed = Inr (JArr (map obj_of ?es))"
    if h: "\<forall>e \<in> set (rideRequests w). storable e \<and> Undefined \<notin> snd ` set (properties e)"
  proof -
    have "Undefined \<notin> snd ` set (properties e)" if "e \<in> set ?es" for e
      using that h by (auto simp: updatedRequests_def properties_def split: if_splits)
    then have "map defined_properties ?es = map obj_of ?es"
      by (simp add: defined_properties_id)
    with b h show ?thesis by simp
  qed
  have d: "\<forall>e k. js_get (defined_properties e) k = js_get (obj_of e) k"
    by (simp add: js_get_defined_properties)
  from a b c d show ?thesis by (simp add: handleRideAction_rideRequests)
qed

theorem stored_list_restores_defined_properties_witness:
  "storable (demo_entry ''1'')
   \<and> JSON_parse (item_or_empty_list (storage (handleRideAction demo_platform Null ''1'' Accept
        (demo_world\<lparr>rideRequests := [demo_entry ''1'']\<rparr>)))) =
       Inr (JArr [JObj [(''id'', JStr ''1''), (''studentName'', JStr ''Amina''),
                        (''studentEmail'', JStr ''amina@school.edu''),
                        (''pickupLocation'', JStr ''Library''), (''destination'', JStr ''Clinic''),
                        (''date'', JStr ''1/1/1970''), (''time'', JStr ''12:00:00 AM''),
                        (''status'', JStr ''accepted''),
                        (''disabilityType'', JStr ''Not specified'')]])
   \<and> storable ((demo_entry ''1'')\<lparr>additionalNotes := JStr ''ramp''\<rparr>)
   \<and> Undefined \<notin> snd ` set (properties ((demo_entry ''1'')\<lparr>additionalNotes := JStr ''ramp''\<rparr>))
   \<and> JSON_parse (item_or_empty_list (storage (handleRideAction demo_platform Null ''1'' Accept
        (demo_world\<lparr>rideRequests := [(demo_entry ''1'')\<lparr>additionalNotes := JStr ''ramp''\<rparr>]\<rparr>)))) =
       Inr (JArr [obj_of ((demo_entry ''1'')\<lparr>additionalNotes := JStr ''ramp'', status := ''accepted''\<rparr>)])"
proof -
  let ?e = "demo_entry ''1''"
  let ?e' = "(demo_entry ''1'')\<lparr>additionalNotes := JStr ''ramp''\<rparr>"
  have s: "storable ?e" and s': "storable ?e'"
    by (simp_all add: storable_def properties_def demo_entry_def)
  have u: "Undefined \<notin> snd ` set (properties ?e')"
    by (simp add: properties_def demo_entry_def)
  have h: "\<forall>e \<in> set (rideRequests (demo_world\<lparr>rideRequests := [?e]\<rparr>)). storable e"
    using s by simp
  have h': "\<forall>e \<in> set (rideRequests (demo_world\<lparr>rideRequests := [?e']\<rparr>)).
      storable e \<and> Undefined \<notin> snd ` set (properties e)"
    using s' u by simp
  have i: "id' ?e = JStr ''1''" "id' ?e' = JStr ''1''" by (simp_all add: demo_entry_def)
  have r: "rideRequests (handleRideAction demo_platform Null ''1'' Accept (demo_world\<lparr>rideRequests := [?e]\<rparr>))
       = [?e\<lparr>status := ''accepted''\<rparr>]"
    and r': "rideRequests (handleRideAction demo_platform Null ''1'' Accept (demo_world\<lparr>rideRequests := [?e']\<rparr>))
       = [?e'\<lparr>status := ''accepted''\<rparr>]"
    using i by (simp_all add: handleRideAction_rideRequests updatedRequests_def newStatus_def)
  have d: "defined_properties (?e\<lparr>status := ''accepted''\<rparr>) =
       JObj [(''id'', JStr ''1''), (''studentName'', JStr ''Amina''),
             (''studentEmail'', JStr ''amina@school.edu''),
             (''pickupLocation'', JStr ''Library''), (''destination'', JStr ''Clinic''),
             (''date'', JStr ''1/1/1970''), (''time'', JStr ''12:00:00 AM''),
             (''status'', JStr ''accepted''),
             (''disabilityType'', JStr ''Not specified'')]"
    by (simp add: defined_properties_def properties_def demo_entry_def)
  from stored_list_restores_defined_properties [of demo_platform Null "''1''" Accept
      "demo_world\<lparr>rideRequests := [?e]\<rparr>"] h
  have "JSON_parse (item_or_empty_list (storage (handleRideAction demo_platform Null ''1'' Accept
        (demo_world\<lparr>rideRequests := [?e]\<rparr>)))) =
      Inr (JArr (map defined_properties (rideRequests (handleRideAction demo_platform Null ''1'' Accept
        (demo_world\<lparr>rideRequests := [?e]\<rparr>)))))"
    by blast
  then have a: "JSON_parse (item_or_empty_list (storage (handleRideAction demo_platform Null ''1'' Accept
        (demo_world\<lparr>rideRequests := [?e]\<rparr>)))) = Inr (JArr [defined_properties (?e\<lparr>status := ''accepted''\<rparr>)])"
    unfolding r by simp
  from stored_list_restores_defined_properties [of demo_platform Null "''1''" Accept
      "demo_world\<lparr>rideRequests := [?e']\<rparr>"] h'
  have "JSON_parse (item_or_empty_list (storage (handleRideAction demo_platform Null ''1'' Accept
        (demo_world\<lparr>rideRequests := [?e']\<rparr>)))) =
      Inr (JArr (map obj_of (rideRequests (handleRideAction demo_platform Null ''1'' Accept
        (demo_world\<lparr>rideRequests := [?e']\<rparr>)))))"
    by blast
  then have b: "JSON_parse (item_or_empty_list (storage (handleRideAction demo_platform Null ''1'' Accept
        (demo_world\<lparr>rideRequests := [?e']\<rparr>)))) = Inr (JArr [obj_of (?e'\<lparr>status := ''accepted''\<rparr>)])"
    unfolding r' by simp
  from s s' u a b show ?thesis unfolding d by simp
qed

text \<open>
  An entry whose \<open>additionalNotes\<close> is \<^verbatim>\<open>undefined\<close>, as the normalizer leaves it when
  the cache had none: after the action the parsed cache is not the list in memory (the
  property is gone). And an entry whose \<open>date\<close> is the number \<^verbatim>\<open>Infinity\<close>, as a cached
  \<^verbatim>\<open>1e400\<close> is read and kept: it comes back with \<open>date\<close> \<^verbatim>\<open>null\<close>.
\<close>

theorem stored_list_drops_undefined_notes:
  "JSON_parse (item_or_empty_list (storage (handleRideAction demo_platform Null ''1'' Accept
      (demo_world\<lparr>rideRequests := [demo_entry ''1'']\<rparr>)))) \<noteq>
   Inr (JArr (map obj_of (rideRequests (handleRideAction demo_platform Null ''1'' Accept
      (demo_world\<lparr>rideRequests := [demo_entry ''1'']\<rparr>)))))
   \<and> date (projr (processRideRequest demo_platform
        (of_json (Json_obj [(''id'', Json_str ''1''), (''date'', Json_num Infinity),
                            (''additionalNotes'', Json_str ''ramp'')])))) = JNum Infinity
   \<and> JSON_parse (item_or_empty_list (storage (handleRideAction demo_platform Null ''1'' Accept
      (demo_world\<lparr>rideRequests :=
         [(demo_entry ''1'')\<lparr>date := JNum Infinity, additionalNotes := JStr ''ramp''\<rparr>]\<rparr>)))) =
      Inr (JArr [obj_of ((demo_entry ''1'')\<lparr>date := Null, additionalNotes := JStr ''ramp'',
                                             status := ''accepted''\<rparr>)])"
  by (simp add: handleRideAction_storage handleRideAction_rideRequests updatedRequests_def
      JSON_parse_def JSON_stringify_def item_or_empty_list_def obj_of_def properties_def
      demo_entry_def newStatus_def processRideRequest_def js_or_def)

lemma js_or_Null_iff: "(js_or v Null \<noteq> Null) = truthy v"
  by (cases v) (simp_all add: js_or_def)

subsection \<open>C8: accepting request 1\<close>

text \<open>
  C8, as the code has it. For a list of one pending entry with id 1, accepting 1 yields
  the entry with status \<^verbatim>\<open>accepted\<close> and sends one update for id 1 with status
  \<^verbatim>\<open>accepted\<close>; its \<open>driver_id\<close> is the user's id when the session has a user with a
  truthy id, and \<^verbatim>\<open>null\<close> otherwise (no user, or a user without an id).
\<close>

theorem accept_stamps_user_id_or_null:
  assumes "rideRequests w = [e]" and "id' e = JStr ''1''" and "status e = ''pending''"
  shows "rideRequests (handleRideAction p user ''1'' Accept w) = [e\<lparr>status := ''accepted''\<rparr>]
    \<and> calls (handleRideAction p user ''1'' Accept w) =
        calls w @
        [(Update \<lparr>status_new = ''accepted'',
                  driver_id_new = (if truthy (js_get_opt user ''id'') then js_get_opt user ''id'' else Null),
                  updated_at_new = JStr (toISOString p (now p))\<rparr> ''1'',
          fst (call (Update (update_of p user Accept) ''1'') w))]
    \<and> (driver_id_new (update_of p user Accept) \<noteq> Null) = truthy (js_get_opt user ''id'')
    \<and> js_get_opt Null ''id'' = Undefined \<and> js_get_opt Undefined ''id'' = Undefined
    \<and> \<not> truthy Undefined"
  using assms
  by (simp add: handleRideAction_rideRequests handleRideAction_calls updatedRequests_def
      newStatus_def update_of_def statusForDb_def js_or_Null_iff js_get_opt_def)
    (simp add: js_or_def)

theorem accept_stamps_user_id_or_null_witness:
  "rideRequests (demo_world\<lparr>rideRequests := [demo_entry ''1'']\<rparr>) = [demo_entry ''1'']
   \<and> id' (demo_entry ''1'') = JStr ''1'' \<and> status (demo_entry ''1'') = ''pending''
   \<and> calls (handleRideAction demo_platform (JObj [(''id'', JStr ''driver-9'')]) ''1'' Accept
        (demo_world\<lparr>rideRequests := [demo_entry ''1'']\<rparr>)) =
       [(Update \<lparr>status_new = ''accepted'', driver_id_new = JStr ''driver-9'',
                 updated_at_new = JStr ''1970-01-01T00:00:00.000Z''\<rparr> ''1'', Succeeds)]
   \<and> rideRequests (handleRideAction demo_platform (JObj [(''id'', JStr ''driver-9'')]) ''1'' Accept
        (demo_world\<lparr>rideRequests := [demo_entry ''1'']\<rparr>)) = [(demo_entry ''1'')\<lparr>status := ''accepted''\<rparr>]"
proof -
  have h1: "rideRequests (demo_world\<lparr>rideRequests := [demo_entry ''1'']\<rparr>) = [demo_entry ''1'']"
    by simp
  have h2: "id' (demo_entry ''1'') = JStr ''1''" and h3: "status (demo_entry ''1'') = ''pending''"
    by (simp_all add: demo_entry_def)
  from accept_stamps_user_id_or_null [OF h1 h2 h3, of demo_platform "JObj [(''id'', JStr ''driver-9'')]"]
  show ?thesis using h2 h3
    by (simp add: js_get_opt_def demo_platform_def demo_world_def call_def)
qed

text \<open>With no user in the session, the update for id 1 carries \<open>driver_id\<close> \<^verbatim>\<open>null\<close>.\<close>

theorem accept_without_user_sends_null_driver:
  "rideRequests (handleRideAction demo_platform Null ''1'' Accept
      (demo_world\<lparr>rideRequests := [demo_entry ''1'']\<rparr>)) = [(demo_entry ''1'')\<lparr>status := ''accepted''\<rparr>]
   \<and> calls (handleRideAction demo_platform Null ''1'' Accept
      (demo_world\<lparr>rideRequests := [demo_entry ''1'']\<rparr>)) =
       [(Update \<lparr>status_new = ''accepted'', driver_id_new = Null,
                 updated_at_new = JStr ''1970-01-01T00:00:00.000Z''\<rparr> ''1'', Succeeds)]"
  by (simp add: handleRideAction_rideRequests handleRideAction_calls updatedRequests_def
      newStatus_def update_of_def statusForDb_def js_or_def js_get_opt_def demo_entry_def
      demo_world_def demo_platform_def call_def)

subsection \<open>C9: the remote update is stamped and filtered by the request's id\<close>

text \<open>
  C9. An action sends exactly one request to the remote table: an update, filtered by
  the given request id, whose object carries the mapped status, the driver identifier
  \<^verbatim>\<open>user?.id || null\<close> and an \<open>updated_at\<close> freshly read from the clock. Whatever happens
  to the call, the table keeps its length and every row with another id is left as it
  was; a row with the given id gets the three fields when the store executes the call.
\<close>

theorem action_update_is_stamped_and_filtered:
  "calls (handleRideAction p user x a w) =
     calls w @ [(Update (update_of p user a) x, fst (call (Update (update_of p user a) x) w))]
   \<and> status_new (update_of p user a) = statusForDb a
   \<and> driver_id_new (update_of p user a) = js_or (js_get_opt user ''id'') Null
   \<and> updated_at_new (update_of p user a) = JStr (toISOString p (now p))
   \<and> length (table (handleRideAction p user x a w)) = length (table w)
   \<and> (\<forall>i < length (table w). id_col (table w ! i) \<noteq> JStr x \<longrightarrow>
         table (handleRideAction p user x a w) ! i = table w ! i)
   \<and> (\<forall>i < length (table w). id_col (table w ! i) = JStr x \<longrightarrow>
         table (handleRideAction p user x a w) ! i =
           (if fst (call (Update (update_of p user a) x) w) = Succeeds
            then (table w ! i)\<lparr>status_col := statusForDb a,
                   driver_id := js_or (js_get_opt user ''id'') Null,
                   updated_at := JStr (toISOString p (now p))\<rparr>
            else table w ! i))"
  by (simp add: handleRideAction_calls handleRideAction_table update_of_def apply_patch_def)

theorem action_update_is_stamped_and_filtered_witness:
  "(0::nat) < length [demo_row, demo_row\<lparr>id_col := JStr ''2''\<rparr>]
   \<and> (1::nat) < length [demo_row, demo_row\<lparr>id_col := JStr ''2''\<rparr>]
   \<and> id_col ([demo_row, demo_row\<lparr>id_col := JStr ''2''\<rparr>] ! 0) \<noteq> JStr ''2''
   \<and> id_col ([demo_row, demo_row\<lparr>id_col := JStr ''2''\<rparr>] ! 1) = JStr ''2''
   \<and> table (handleRideAction demo_platform (JObj [(''id'', JStr ''driver-9'')]) ''2'' Complete
        (demo_world\<lparr>table := [demo_row, demo_row\<lparr>id_col := JStr ''2''\<rparr>]\<rparr>)) ! 0 = demo_row
   \<and> table (handleRideAction demo_platform (JObj [(''id'', JStr ''driver-9'')]) ''2'' Complete
        (demo_world\<lparr>table := [demo_row, demo_row\<lparr>id_col := JStr ''2''\<rparr>]\<rparr>)) ! 1 =
       demo_row\<lparr>id_col := JStr ''2'', status_col := ''completed'', driver_id := JStr ''driver-9'',
                updated_at := JStr ''1970-01-01T00:00:00.000Z''\<rparr>"
  using action_update_is_stamped_and_filtered
    [of demo_platform "JObj [(''id'', JStr ''driver-9'')]" "''2''" Complete
        "demo_world\<lparr>table := [demo_row, demo_row\<lparr>id_col := JStr ''2''\<rparr>]\<rparr>"]
  by (simp add: demo_row_def demo_world_def demo_platform_def call_def statusForDb_def
      js_or_def js_get_opt_def)

subsection \<open>C10: every status shown is one of the four\<close>

text \<open>
  C10. After a load that returns, in either branch, every entry of the list has a status
  among \<^verbatim>\<open>pending\<close>, \<^verbatim>\<open>accepted\<close>, \<^verbatim>\<open>completed\<close>, \<^verbatim>\<open>declined\<close>; a load and an action
  keep this property of the list they start from. A remote row whose status is
  \<^verbatim>\<open>rejected\<close>, or any string other than \<^verbatim>\<open>accepted\<close>, \<^verbatim>\<open>completed\<close> and \<^verbatim>\<open>declined\<close>, is
  shown as \<^verbatim>\<open>pending\<close>.
\<close>

theorem status_stays_in_enumeration:
  "(fst (loadRideRequests p w) = Returned \<longrightarrow>
      (\<forall>r \<in> set (rideRequests (snd (loadRideRequests p w))). valid_status (status r)))
   \<and> ((\<forall>r \<in> set (rideRequests w). valid_status (status r)) \<longrightarrow>
      (\<forall>r \<in> set (rideRequests (snd (loadRideRequests p w))). valid_status (status r))
      \<and> (\<forall>r \<in> set (rideRequests (handleRideAction p user x a w)). valid_status (status r)))
   \<and> (status_col row \<notin> {''accepted'', ''completed'', ''declined''} \<longrightarrow>
        status (fromDb p row) = ''pending'')
   \<and> status (fromDb p (row\<lparr>status_col := ''rejected''\<rparr>)) = ''pending''"
proof -
  have "\<forall>r \<in> set (rideRequests (handleRideAction p user x a w)). valid_status (status r)"
    if "\<forall>r \<in> set (rideRequests w). valid_status (status r)"
    using that
    by (auto simp: handleRideAction_rideRequests updatedRequests_def newStatus_def valid_status_def)
  moreover have "status_col row \<notin> {''accepted'', ''completed'', ''declined''} \<longrightarrow>
      status (fromDb p row) = ''pending''"
    by (simp add: fromDb_def validateStatus_def)
  moreover have "status (fromDb p (row\<lparr>status_col := ''rejected''\<rparr>)) = ''pending''"
    by (simp add: fromDb_def validateStatus_def)
  ultimately show ?thesis using load_valid [of p w] by blast
qed

theorem status_stays_in_enumeration_witness:
  "fst (loadRideRequests demo_platform (demo_world\<lparr>table := [demo_row]\<rparr>)) = Returned
   \<and> map status (rideRequests (snd (loadRideRequests demo_platform (demo_world\<lparr>table := [demo_row]\<rparr>))))
       = [''pending'']
   \<and> valid_status ''pending''
   \<and> list_all (\<lambda>r. valid_status (status r)) (rideRequests (demo_world\<lparr>rideRequests := [demo_entry ''1'']\<rparr>))
   \<and> map status (rideRequests (handleRideAction demo_platform Null ''1'' Accept
        (demo_world\<lparr>rideRequests := [demo_entry ''1'']\<rparr>))) = [''accepted'']
   \<and> valid_status ''accepted''
   \<and> status_col demo_row \<notin> {''accepted'', ''completed'', ''declined''}
   \<and> status (fromDb demo_platform demo_row) = ''pending''"
proof -
  have l: "loadRideRequests demo_platform (demo_world\<lparr>table := [demo_row]\<rparr>) =
      (Returned, demo_world\<lparr>table := [demo_row], calls := [(SelectAll, Succeeds)],
         console := [ConsoleLog ''Loaded ride requests from Supabase:'' [demo_row]],
         rideRequests := [fromDb demo_platform demo_row]\<rparr>)"
    by (simp add: loadRideRequests_def remote_select_all_def call_def demo_world_def)
  have s: "status (fromDb demo_platform demo_row) = ''pending''"
    by (simp add: fromDb_def demo_row_def validateStatus_def)
  have v: "valid_status ''pending''" "valid_status ''accepted''"
    by (simp_all add: valid_status_def)
  have n: "status_col demo_row \<notin> {''accepted'', ''completed'', ''declined''}"
    by (simp add: demo_row_def)
  have a: "rideRequests (handleRideAction demo_platform Null ''1'' Accept
        (demo_world\<lparr>rideRequests := [demo_entry ''1'']\<rparr>)) = [(demo_entry ''1'')\<lparr>status := ''accepted''\<rparr>]"
    by (simp add: handleRideAction_rideRequests updatedRequests_def newStatus_def demo_entry_def)
  have e: "status (demo_entry ''1'') = ''pending''" by (simp add: demo_entry_def)
  from status_stays_in_enumeration
    [of demo_platform "demo_world\<lparr>table := [demo_row]\<rparr>" Null "''1''" Accept demo_row]
    status_stays_in_enumeration
    [of demo_platform "demo_world\<lparr>rideRequests := [demo_entry ''1'']\<rparr>" Null "''1''" Accept demo_row]
  show ?thesis using l s v n a e by simp
qed

end
